theory Spec2Isabelle
  imports Complex_Main "HOL-Library.Log_Nat"
begin

section \<open>Values, error codes and engine objects\<close>

text \<open>
  The wrapper (\<^verbatim>\<open>RLWrapper.cpp\<close>) is a C boundary around the Robotics Library. The library
  itself is not part of the repository, so every call into it is a field of the record
  \<open>engine\<close> below and the theorems hold for every engine. A \<^verbatim>\<open>double\<close> is read as a
  real number, and the one product whose fraction is then cut off (the duration in
  milliseconds) is rounded as the machine rounds it; an \<^verbatim>\<open>int\<close> is an integer (counts of
  objects that exist in memory stay in the 32-bit range, the casts of values read from a
  descriptor are written out); a C array is the memory behind its pointer, a function from
  offsets to values; a null pointer is \<open>None\<close>.
\<close>

type_synonym vec = "real list"
type_synonym carray = "nat \<Rightarrow> real"

datatype exn = Std_exception | Unknown_exception

datatype 'a outcome = Returns 'a | Throws exn

definition RL_SUCCESS :: int where "RL_SUCCESS = 0"
definition RL_ERROR_INVALID_POINTER :: int where "RL_ERROR_INVALID_POINTER = - 1"
definition RL_ERROR_INVALID_PARAMETER :: int where "RL_ERROR_INVALID_PARAMETER = - 2"
definition RL_ERROR_LOAD_FAILED :: int where "RL_ERROR_LOAD_FAILED = - 3"
definition RL_ERROR_PLANNING_FAILED :: int where "RL_ERROR_PLANNING_FAILED = - 4"
definition RL_ERROR_NOT_INITIALIZED :: int where "RL_ERROR_NOT_INITIALIZED = - 5"
definition RL_ERROR_EXCEPTION :: int where "RL_ERROR_EXCEPTION = - 6"

text \<open>
  Engine objects. An object is described by what the wrapper can observe of it: the
  descriptor it was loaded from and the outcome of the \<^verbatim>\<open>dynamic_cast\<close>s the wrapper performs
  on it. A raw pointer to an object is the object that was current when the pointer was taken.
\<close>

datatype backend = FCL | ODE | PQP | Bullet | SOLID

record kinematics_obj =
  kin_source :: string
  kin_dynamic :: bool     \<comment> \<open>\<^verbatim>\<open>dynamic_cast<rl::mdl::Dynamic*>\<close> succeeds\<close>

record mdl_obj =
  mdl_source :: string
  mdl_dynamic :: bool     \<comment> \<open>\<^verbatim>\<open>dynamic_pointer_cast<rl::mdl::Dynamic>\<close> succeeds\<close>
  mdl_kinematics :: "kinematics_obj option"
                          \<comment> \<open>\<^verbatim>\<open>dynamic_pointer_cast<rl::kin::Kinematics>\<close> of the dynamic model\<close>

record scene_obj =
  sc_backend :: backend
  sc_source :: "string option"   \<comment> \<open>\<open>None\<close>: created, nothing loaded yet\<close>
  sc_numModels :: nat

text \<open>\<^verbatim>\<open>rl::plan::SimpleModel\<close>: its four public pointers, all null after construction.\<close>

record simple_model =
  sm_kin :: "kinematics_obj option"
  sm_mdl :: "kinematics_obj option"
  sm_model :: "nat option"       \<comment> \<open>the robot sub-model, by its index in the scene\<close>
  sm_scene :: "scene_obj option"

record sampler_obj =
  sa_model :: "simple_model option"

record verifier_obj =
  v_delta :: real
  v_model :: "simple_model option"

record nn_obj =
  nn_model :: "simple_model option"

record optimizer_obj =
  o_model :: "simple_model option"
  o_verifier :: "verifier_obj option"

text \<open>The planner's \<^verbatim>\<open>start\<close> and \<^verbatim>\<open>goal\<close> pointers: into the session, or to a per-call vector.\<close>

datatype vec_ptr = Stored_start | Stored_goal | Transient vec

datatype planner_kind =
    Rrt real real                \<comment> \<open>delta, epsilon\<close>
  | RrtConCon real real          \<comment> \<open>delta, epsilon\<close>
  | RrtGoalBias real real real   \<comment> \<open>delta, epsilon, probability\<close>
  | Prm nat nat real             \<comment> \<open>degree, k, radius\<close>

record planner_obj =
  p_kind :: planner_kind
  p_sampler :: "sampler_obj option"
  p_verifier :: "verifier_obj option"
  p_nn :: "nn_obj option"
  p_model :: "simple_model option"
  p_duration :: "int option"     \<comment> \<open>milliseconds; \<open>None\<close>: the engine's initial value\<close>
  p_start :: "vec_ptr option"
  p_goal :: "vec_ptr option"

text \<open>\<^verbatim>\<open>struct PlannerState\<close>.\<close>

record session =
  scene :: "scene_obj option"
  kinematics :: "kinematics_obj option"
  mdl :: "mdl_obj option"
  model :: "simple_model option"
  robotModel :: "nat option"
  initialized :: bool
  planner :: "planner_obj option"
  sampler :: "sampler_obj option"
  verifier :: "verifier_obj option"
  nearestNeighbors :: "nn_obj option"
  optimizer :: "optimizer_obj option"
  start :: "vec option"
  goal :: "vec option"
  plannerType :: string
  delta :: real
  epsilon :: real
  timeoutMs :: int

text \<open>The constructor \<^verbatim>\<open>PlannerState()\<close>, which is all that \<^verbatim>\<open>CreatePlanner\<close> runs.\<close>

definition CreatePlanner :: session where
  "CreatePlanner =
     \<lparr>scene = None, kinematics = None, mdl = None, model = None, robotModel = None,
      initialized = False, planner = None, sampler = None, verifier = None,
      nearestNeighbors = None, optimizer = None, start = None, goal = None,
      plannerType = [], delta = 0.1, epsilon = 0.001, timeoutMs = 30000\<rparr>"

text \<open>
  The plan descriptor, as the XPath queries of \<^verbatim>\<open>LoadPlanXml\<close> see it: one field per query.
\<close>

record q_node =
  q_value :: real      \<comment> \<open>\<^verbatim>\<open>atof\<close> of the element's text\<close>
  q_unit :: string     \<comment> \<open>the \<^verbatim>\<open>unit\<close> property, empty when absent\<close>

record xml_doc =
  root_name :: string
  root_version :: string
  root_namespace :: "string option"
  scene_hrefs :: "string list"        \<comment> \<open>local paths of \<^verbatim>\<open>//model/scene\<close>\<close>
  kinematics_hrefs :: "string list"   \<comment> \<open>local paths of \<^verbatim>\<open>//model/kinematics\<close>\<close>
  model_index :: nat                  \<comment> \<open>\<^verbatim>\<open>number(//model/model)\<close> as \<^verbatim>\<open>size_t\<close>, 0 by default\<close>
  planner_names :: "string list"      \<comment> \<open>names of the planner elements found\<close>
  delta_count :: nat
  delta_number :: real
  delta_unit :: string
  epsilon_count :: nat
  epsilon_number :: real
  epsilon_unit :: string
  duration_count :: nat
  duration_number :: real
  start_q :: "q_node list"
  goal_q :: "q_node list"

text \<open>The library calls the wrapper makes. Each may throw, as the wrapper's handlers expect.\<close>

record engine =
  compiled_backend :: "backend option"
  is_distance_scene :: "backend \<Rightarrow> bool"
  is_simple_scene :: "backend \<Rightarrow> bool"
  mdl_factory_create :: "string \<Rightarrow> mdl_obj outcome"
  kin_create :: "string \<Rightarrow> kinematics_obj outcome"
  scene_load :: "backend \<Rightarrow> string \<Rightarrow> nat outcome"
  getDofPosition :: "simple_model \<Rightarrow> nat outcome"
  model_isValid :: "simple_model \<Rightarrow> vec \<Rightarrow> bool outcome"
  verifier_isValid :: "verifier_obj \<Rightarrow> vec list \<Rightarrow> bool outcome"
  planner_verify :: "planner_obj \<Rightarrow> vec \<Rightarrow> vec \<Rightarrow> bool outcome"
  planner_solve :: "planner_obj \<Rightarrow> vec \<Rightarrow> vec \<Rightarrow> bool outcome"
  planner_getPath :: "planner_obj \<Rightarrow> vec \<Rightarrow> vec \<Rightarrow> vec list outcome"
  optimizer_process :: "optimizer_obj \<Rightarrow> vec list \<Rightarrow> vec list outcome"
  xml_readFile :: "string \<Rightarrow> xml_doc outcome"
  stylesheet_apply :: "xml_doc \<Rightarrow> xml_doc outcome"

section \<open>Helpers of the wrapper\<close>

text \<open>\<^verbatim>\<open>for (i = 0; i < n; ++i) v(i) = a[i]\<close>\<close>

definition copy_array :: "carray \<Rightarrow> nat \<Rightarrow> vec" where
  "copy_array a n = map a [0..<n]"

text \<open>
  \<^verbatim>\<open>constrainZAxis\<close>. The read \<^verbatim>\<open>start(zAxisIndex)\<close> is in range whenever the start vector has
  the size of the goal vector.
\<close>

definition constrainZAxis :: "vec \<Rightarrow> vec \<Rightarrow> int \<Rightarrow> vec" where
  "constrainZAxis goalVec startVec zAxisIndex =
     (if zAxisIndex \<ge> 0 \<and> zAxisIndex < int (length goalVec)
      then goalVec[nat zAxisIndex := startVec ! nat zAxisIndex]
      else goalVec)"

definition size_t_max :: nat where "size_t_max = 2 ^ 64 - 1"
definition Real_max :: real where "Real_max = (2 - 1 / 2 ^ 52) * 2 ^ 1023"

text \<open>\<^verbatim>\<open>createPlanner\<close>: \<open>None\<close> is the null planner returned for an unknown type.\<close>

definition createPlanner ::
  "string \<Rightarrow> sampler_obj option \<Rightarrow> verifier_obj option \<Rightarrow> nn_obj option \<Rightarrow> real \<Rightarrow> real
     \<Rightarrow> planner_obj option" where
  "createPlanner ty sa ve nn dl ep =
     (if ty = ''rrt'' \<or> ty = ''RRT'' then
        Some \<lparr>p_kind = Rrt dl ep, p_sampler = sa, p_verifier = None, p_nn = nn,
              p_model = None, p_duration = None, p_start = None, p_goal = None\<rparr>
      else if ty = ''rrtConnect'' \<or> ty = ''RRTConnect'' \<or> ty = ''rrtConCon'' \<or> ty = ''RRTConCon'' then
        Some \<lparr>p_kind = RrtConCon dl ep, p_sampler = sa, p_verifier = None, p_nn = nn,
              p_model = None, p_duration = None, p_start = None, p_goal = None\<rparr>
      else if ty = ''rrtGoalBias'' \<or> ty = ''RRTGoalBias'' then
        Some \<lparr>p_kind = RrtGoalBias dl ep 0.05, p_sampler = sa, p_verifier = None, p_nn = nn,
              p_model = None, p_duration = None, p_start = None, p_goal = None\<rparr>
      else if ty = ''prm'' \<or> ty = ''PRM'' then
        Some \<lparr>p_kind = Prm size_t_max 30 Real_max, p_sampler = sa, p_verifier = ve, p_nn = nn,
              p_model = None, p_duration = None, p_start = None, p_goal = None\<rparr>
      else None)"

text \<open>The type strings \<^verbatim>\<open>createPlanner\<close> knows.\<close>

definition known_planner_type :: "string \<Rightarrow> bool" where
  "known_planner_type ty \<longleftrightarrow>
     ty \<in> set [''rrt'', ''RRT'', ''rrtConnect'', ''RRTConnect'', ''rrtConCon'', ''RRTConCon'',
               ''rrtGoalBias'', ''RRTGoalBias'', ''prm'', ''PRM'']"

section \<open>PlanTrajectory\<close>

text \<open>
  The handlers of \<^verbatim>\<open>PlanTrajectory\<close>: \<^verbatim>\<open>catch (const std::exception&)\<close> and \<^verbatim>\<open>catch (...)\<close>.
\<close>

definition catch_plan :: "exn \<Rightarrow> int" where
  "catch_plan x = (case x of Std_exception \<Rightarrow> RL_ERROR_PLANNING_FAILED
                           | Unknown_exception \<Rightarrow> RL_ERROR_EXCEPTION)"

text \<open>The vector a planner pointer designates.\<close>

definition deref :: "session \<Rightarrow> vec_ptr \<Rightarrow> vec" where
  "deref s p = (case p of Stored_start \<Rightarrow> the (start s)
                        | Stored_goal \<Rightarrow> the (goal s)
                        | Transient v \<Rightarrow> v)"

text \<open>
  Choice of the start vector: the per-call array when given, else the stored start.
  \<open>Inl\<close> carries the error code returned.
\<close>

definition resolve_start :: "session \<Rightarrow> carray option \<Rightarrow> int \<Rightarrow> nat \<Rightarrow> int + vec_ptr" where
  "resolve_start s startArr startSize dof =
     (if startArr \<noteq> None \<and> startSize > 0 then
        (if startSize \<noteq> int dof then Inl RL_ERROR_INVALID_PARAMETER
         else Inr (Transient (copy_array (the startArr) dof)))
      else if start s \<noteq> None then Inr Stored_start
      else Inl RL_ERROR_INVALID_PARAMETER)"

text \<open>
  Choice of the goal vector. The Z-axis constraint sits in the branch of the per-call
  array; \<open>startVec\<close> is the start vector chosen above, never null at this point.
\<close>

definition resolve_goal ::
  "session \<Rightarrow> carray option \<Rightarrow> int \<Rightarrow> int \<Rightarrow> nat \<Rightarrow> vec \<Rightarrow> int + vec_ptr" where
  "resolve_goal s goalArr goalSize useZAxis dof startVec =
     (if goalArr \<noteq> None \<and> goalSize > 0 then
        (if goalSize \<noteq> int dof then Inl RL_ERROR_INVALID_PARAMETER
         else
           let tempGoal = copy_array (the goalArr) dof;
               tempGoal' = (if useZAxis = 0 \<and> int dof \<ge> 3
                            then constrainZAxis tempGoal startVec (int dof - 1)
                            else tempGoal)
           in Inr (Transient tempGoal'))
      else if goal s \<noteq> None then Inr Stored_goal
      else Inl RL_ERROR_INVALID_PARAMETER)"

text \<open>
  The block under \<^verbatim>\<open>if (!rlPlanner)\<close>: the missing components are created and stored, the
  type and the parameters are chosen, and the planner is created. \<open>Inl\<close> is the return of
  \<^verbatim>\<open>RL_ERROR_INVALID_PARAMETER\<close> for a null planner, with the session as it is then.
\<close>

definition create_components :: "session \<Rightarrow> real \<Rightarrow> session" where
  "create_components s deltaArg =
     (let s1 = (if sampler s = None then s\<lparr>sampler := Some \<lparr>sa_model = model s\<rparr>\<rparr> else s);
          s2 = (if verifier s1 = None
                then s1\<lparr>verifier := Some \<lparr>v_delta = (if deltaArg > 0 then deltaArg else delta s1),
                                            v_model = model s1\<rparr>\<rparr>
                else s1);
          s3 = (if nearestNeighbors s2 = None
                then s2\<lparr>nearestNeighbors := Some \<lparr>nn_model = model s2\<rparr>\<rparr>
                else s2)
      in s3)"

definition choose_type :: "session \<Rightarrow> string option \<Rightarrow> string" where
  "choose_type s plannerTypeArg =
     (if plannerTypeArg \<noteq> None \<and> length (the plannerTypeArg) > 0 then the plannerTypeArg
      else if plannerType s \<noteq> [] then plannerType s
      else ''rrtConCon'')"

definition new_planner ::
  "session \<Rightarrow> string option \<Rightarrow> real \<Rightarrow> real \<Rightarrow> int \<Rightarrow> session + session \<times> planner_obj" where
  "new_planner s plannerTypeArg deltaArg epsilonArg timeoutArg =
     (let s3 = create_components s deltaArg;
          plannerTypeStr = choose_type s3 plannerTypeArg;
          useDelta = (if deltaArg > 0 then deltaArg else delta s3);
          useEpsilon = (if epsilonArg > 0 then epsilonArg else epsilon s3);
          useTimeout = (if timeoutArg > 0 then timeoutArg else timeoutMs s3)
      in case createPlanner plannerTypeStr (sampler s3) (verifier s3) (nearestNeighbors s3)
                useDelta useEpsilon of
           None \<Rightarrow> Inl s3
         | Some p \<Rightarrow>
             let rlPlanner = p\<lparr>p_model := model s3, p_duration := Some useTimeout\<rparr>
             in Inr (s3\<lparr>planner := Some rlPlanner, plannerType := plannerTypeStr,
                        delta := useDelta, epsilon := useEpsilon, timeoutMs := useTimeout\<rparr>,
                     rlPlanner))"

text \<open>
  Everything \<^verbatim>\<open>PlanTrajectory\<close> does before it calls \<^verbatim>\<open>verify()\<close>. \<open>Inl\<close> is an early return:
  its code and the session left behind. \<open>Inr\<close> is the planner as the engine is about to be
  called on it: the session with the planner bound, the planner, the vectors its \<^verbatim>\<open>start\<close>
  and \<^verbatim>\<open>goal\<close> point to, and the degrees of freedom.
\<close>

record prepared =
  pr_session :: session
  pr_planner :: planner_obj
  pr_start :: vec
  pr_goal :: vec
  pr_dof :: nat

definition prepare_plan ::
  "engine \<Rightarrow> session \<Rightarrow> carray option \<Rightarrow> int \<Rightarrow> carray option \<Rightarrow> int \<Rightarrow> int \<Rightarrow> string option
     \<Rightarrow> real \<Rightarrow> real \<Rightarrow> int \<Rightarrow> int \<times> session + prepared" where
  "prepare_plan e s startArr startSize goalArr goalSize useZAxis plannerTypeArg
       deltaArg epsilonArg timeoutArg =
     (if \<not> initialized s \<or> model s = None then Inl (RL_ERROR_NOT_INITIALIZED, s)
      else case getDofPosition e (the (model s)) of
        Throws x \<Rightarrow> Inl (catch_plan x, s)
      | Returns dof \<Rightarrow>
      (case resolve_start s startArr startSize dof of
        Inl c \<Rightarrow> Inl (c, s)
      | Inr startVec \<Rightarrow>
      (case resolve_goal s goalArr goalSize useZAxis dof (deref s startVec) of
        Inl c \<Rightarrow> Inl (c, s)
      | Inr goalVec \<Rightarrow>
      (case (case planner s of
               Some p \<Rightarrow> Inr (s, p)
             | None \<Rightarrow> new_planner s plannerTypeArg deltaArg epsilonArg timeoutArg) of
        Inl s3 \<Rightarrow> Inl (RL_ERROR_INVALID_PARAMETER, s3)
      | Inr (s4, p) \<Rightarrow>
          let p1 = p\<lparr>p_start := Some startVec, p_goal := Some goalVec\<rparr>;
              rlPlanner = (if timeoutArg > 0 then p1\<lparr>p_duration := Some timeoutArg\<rparr> else p1)
          in Inr \<lparr>pr_session = s4\<lparr>planner := Some rlPlanner\<rparr>, pr_planner = rlPlanner,
                  pr_start = deref s startVec, pr_goal = deref s goalVec, pr_dof = dof\<rparr>))))"

text \<open>The copy loop: row \<open>idx\<close> of the output takes the waypoint, while \<open>idx < count\<close>.\<close>

definition write_row :: "carray \<Rightarrow> nat \<Rightarrow> nat \<Rightarrow> vec \<Rightarrow> carray" where
  "write_row wp idx dof waypoint =
     fold (\<lambda>j buf. buf(idx * dof + j := waypoint ! j)) [0..<dof] wp"

fun copy_waypoints :: "vec list \<Rightarrow> nat \<Rightarrow> int \<Rightarrow> nat \<Rightarrow> carray \<Rightarrow> carray" where
  "copy_waypoints [] idx count dof wp = wp"
| "copy_waypoints (w # ws) idx count dof wp =
     (if int idx < count then copy_waypoints ws (Suc idx) count dof (write_row wp idx dof w)
      else wp)"

text \<open>
  What a call leaves behind: the return code, the session, the output buffer and
  \<^verbatim>\<open>*waypointCount\<close>.
\<close>

record plan_result =
  rc :: int
  st :: session
  wp_out :: carray
  cnt_out :: int

text \<open>
  The optimizer used on the path: the stored one, or a temporary one on the session's
  model and verifier.
\<close>

definition path_optimizer :: "session \<Rightarrow> optimizer_obj" where
  "path_optimizer s =
     (case optimizer s of
        Some opt \<Rightarrow> opt
      | None \<Rightarrow> \<lparr>o_model = model s, o_verifier = verifier s\<rparr>)"

text \<open>
  The engine at work, from \<^verbatim>\<open>verify()\<close> to the optimizer. \<open>Aborted c\<close> is a return of code
  \<open>c\<close> that leaves \<^verbatim>\<open>*waypointCount\<close> alone (\<^verbatim>\<open>verify()\<close> false, or an exception caught by one
  of the two handlers); \<open>Not_solved\<close> is \<^verbatim>\<open>solve()\<close> returning false; \<open>Solved path\<close> hands the
  optimized path to the copy loop.
\<close>

datatype solve_result = Aborted int | Not_solved | Solved "vec list"

definition run_planner :: "engine \<Rightarrow> prepared \<Rightarrow> solve_result" where
  "run_planner e pr =
     (case planner_verify e (pr_planner pr) (pr_start pr) (pr_goal pr) of
        Throws x \<Rightarrow> Aborted (catch_plan x)
      | Returns verified \<Rightarrow>
          if \<not> verified then Aborted RL_ERROR_PLANNING_FAILED
          else
      (case planner_solve e (pr_planner pr) (pr_start pr) (pr_goal pr) of
        Throws x \<Rightarrow> Aborted (catch_plan x)
      | Returns solved \<Rightarrow>
          if \<not> solved then Not_solved
          else
      (case planner_getPath e (pr_planner pr) (pr_start pr) (pr_goal pr) of
        Throws x \<Rightarrow> Aborted (catch_plan x)
      | Returns path \<Rightarrow>
      (case optimizer_process e (path_optimizer (pr_session pr)) path of
        Throws x \<Rightarrow> Aborted (catch_plan x)
      | Returns path' \<Rightarrow> Solved path'))))"

text \<open>
  \<^verbatim>\<open>PlanTrajectory\<close>. The handle, \<^verbatim>\<open>waypoints\<close> and \<^verbatim>\<open>waypointCount\<close> may be null, and then
  nothing is touched; \<open>PlanTrajectory_body\<close> is the \<^verbatim>\<open>try\<close> block with its handlers.
\<close>

definition PlanTrajectory_body ::
  "engine \<Rightarrow> session \<Rightarrow> carray option \<Rightarrow> int \<Rightarrow> carray option \<Rightarrow> int \<Rightarrow> int \<Rightarrow> string option
     \<Rightarrow> real \<Rightarrow> real \<Rightarrow> int \<Rightarrow> carray \<Rightarrow> int \<Rightarrow> int \<Rightarrow> plan_result" where
  "PlanTrajectory_body e s startArr startSize goalArr goalSize useZAxis plannerTypeArg
       deltaArg epsilonArg timeoutArg waypoints maxWaypoints waypointCount =
     (case prepare_plan e s startArr startSize goalArr goalSize useZAxis plannerTypeArg
             deltaArg epsilonArg timeoutArg of
        Inl (c, s') \<Rightarrow> \<lparr>rc = c, st = s', wp_out = waypoints, cnt_out = waypointCount\<rparr>
      | Inr pr \<Rightarrow>
      (case run_planner e pr of
        Aborted c \<Rightarrow>
          \<lparr>rc = c, st = pr_session pr, wp_out = waypoints, cnt_out = waypointCount\<rparr>
      | Not_solved \<Rightarrow>
          \<lparr>rc = RL_ERROR_PLANNING_FAILED, st = pr_session pr, wp_out = waypoints, cnt_out = 0\<rparr>
      | Solved path \<Rightarrow>
          let count = (if int (length path) > maxWaypoints then maxWaypoints
                       else int (length path))
          in \<lparr>rc = RL_SUCCESS, st = pr_session pr,
              wp_out = copy_waypoints path 0 count (pr_dof pr) waypoints,
              cnt_out = count\<rparr>))"

text \<open>
  The result of a call on a null handle or null output pointers has no session or no
  buffer to report: \<open>Inl\<close> is the bare return code.
\<close>

definition PlanTrajectory ::
  "engine \<Rightarrow> session option \<Rightarrow> carray option \<Rightarrow> int \<Rightarrow> carray option \<Rightarrow> int \<Rightarrow> int
     \<Rightarrow> string option \<Rightarrow> real \<Rightarrow> real \<Rightarrow> int \<Rightarrow> carray option \<Rightarrow> int \<Rightarrow> int option
     \<Rightarrow> int + plan_result" where
  "PlanTrajectory e h startArr startSize goalArr goalSize useZAxis plannerTypeArg
       deltaArg epsilonArg timeoutArg waypoints maxWaypoints waypointCount =
     (case (h, waypoints, waypointCount) of
        (Some s, Some w, Some c) \<Rightarrow>
          Inr (PlanTrajectory_body e s startArr startSize goalArr goalSize useZAxis
                 plannerTypeArg deltaArg epsilonArg timeoutArg w maxWaypoints c)
      | _ \<Rightarrow> Inl RL_ERROR_INVALID_POINTER)"

section \<open>Loading\<close>

text \<open>
  The handlers of the three loaders: \<^verbatim>\<open>catch (const std::exception&)\<close> gives
  \<^verbatim>\<open>RL_ERROR_LOAD_FAILED\<close>, \<^verbatim>\<open>catch (...)\<close> gives \<^verbatim>\<open>RL_ERROR_EXCEPTION\<close>.
\<close>

definition catch_load :: "exn \<Rightarrow> int" where
  "catch_load x = (case x of Std_exception \<Rightarrow> RL_ERROR_LOAD_FAILED
                           | Unknown_exception \<Rightarrow> RL_ERROR_EXCEPTION)"

text \<open>The fallback of \<^verbatim>\<open>LoadKinematics\<close>: \<^verbatim>\<open>rl::kin::Kinematics::create\<close>.\<close>

definition load_plain_kinematics :: "engine \<Rightarrow> session \<Rightarrow> string \<Rightarrow> int \<times> session" where
  "load_plain_kinematics e s xmlPath =
     (case kin_create e xmlPath of
        Throws x \<Rightarrow> (catch_load x, s)
      | Returns k \<Rightarrow> (RL_SUCCESS, s\<lparr>kinematics := Some k\<rparr>))"

text \<open>
  \<^verbatim>\<open>LoadKinematics\<close> on a non-null handle and path. The inner \<^verbatim>\<open>try\<close> catches
  \<^verbatim>\<open>std::exception\<close> only; anything else reaches the outer \<^verbatim>\<open>catch (...)\<close>.
\<close>

definition LoadKinematics_body :: "engine \<Rightarrow> session \<Rightarrow> string \<Rightarrow> int \<times> session" where
  "LoadKinematics_body e s xmlPath =
     (case mdl_factory_create e xmlPath of
        Throws Std_exception \<Rightarrow> load_plain_kinematics e s xmlPath
      | Throws Unknown_exception \<Rightarrow> (RL_ERROR_EXCEPTION, s)
      | Returns m \<Rightarrow>
          if mdl_dynamic m then
            (let s1 = s\<lparr>mdl := Some m, kinematics := mdl_kinematics m\<rparr>
             in if kinematics s1 = None then (RL_ERROR_LOAD_FAILED, s1) else (RL_SUCCESS, s1))
          else load_plain_kinematics e s xmlPath)"

definition LoadKinematics ::
  "engine \<Rightarrow> session option \<Rightarrow> string option \<Rightarrow> int \<times> session option" where
  "LoadKinematics e h xmlPath =
     (case (h, xmlPath) of
        (Some s, Some path) \<Rightarrow>
          (case LoadKinematics_body e s path of (c, s') \<Rightarrow> (c, Some s'))
      | _ \<Rightarrow> (RL_ERROR_INVALID_POINTER, h))"

text \<open>
  \<^verbatim>\<open>LoadScene\<close> on a non-null handle and path. \<^verbatim>\<open>createScene\<close> throws a
  \<^verbatim>\<open>std::runtime_error\<close> when no backend was compiled in. The session keeps what was
  assigned before an early return.
\<close>

definition wire_model :: "session \<Rightarrow> simple_model" where
  "wire_model s =
     (let m0 = \<lparr>sm_kin = None, sm_mdl = None, sm_model = None, sm_scene = None\<rparr>;
          m1 = (case kinematics s of
                  Some k \<Rightarrow> if kin_dynamic k then m0\<lparr>sm_mdl := Some k\<rparr> else m0\<lparr>sm_kin := Some k\<rparr>
                | None \<Rightarrow> m0)
      in m1\<lparr>sm_model := robotModel s, sm_scene := scene s\<rparr>)"

definition LoadScene_body :: "engine \<Rightarrow> session \<Rightarrow> string \<Rightarrow> int \<Rightarrow> int \<times> session" where
  "LoadScene_body e s xmlPath robotModelIndex =
     (case compiled_backend e of
        None \<Rightarrow> (RL_ERROR_LOAD_FAILED, s)
      | Some b \<Rightarrow>
          let s1 = s\<lparr>scene := Some \<lparr>sc_backend = b, sc_source = None, sc_numModels = 0\<rparr>\<rparr>
          in
      (case scene_load e b xmlPath of
        Throws x \<Rightarrow> (catch_load x, s1)
      | Returns n \<Rightarrow>
          let s2 = s1\<lparr>scene := Some \<lparr>sc_backend = b, sc_source = Some xmlPath,
                                      sc_numModels = n\<rparr>\<rparr>;
              numModels = int n
          in
          if robotModelIndex < 0 \<or> robotModelIndex \<ge> numModels
          then (RL_ERROR_INVALID_PARAMETER, s2)
          else
            let s3 = s2\<lparr>robotModel := Some (nat robotModelIndex)\<rparr>
            in
            if \<not> is_distance_scene e b \<and> \<not> is_simple_scene e b
            then (RL_ERROR_LOAD_FAILED, s3)
            else
              let m = wire_model s3;
                  s4 = s3\<lparr>model := Some m\<rparr>
              in
              if sm_kin m = None \<and> sm_mdl m = None then (RL_ERROR_NOT_INITIALIZED, s4)
              else if sm_model m = None \<or> sm_scene m = None then (RL_ERROR_NOT_INITIALIZED, s4)
              else
      (case getDofPosition e m of
        Throws x \<Rightarrow> (catch_load x, s4)
      | Returns d \<Rightarrow> (RL_SUCCESS, s4\<lparr>initialized := True\<rparr>))))"

definition LoadScene ::
  "engine \<Rightarrow> session option \<Rightarrow> string option \<Rightarrow> int \<Rightarrow> int \<times> session option" where
  "LoadScene e h xmlPath robotModelIndex =
     (case (h, xmlPath) of
        (Some s, Some path) \<Rightarrow>
          (case LoadScene_body e s path robotModelIndex of (c, s') \<Rightarrow> (c, Some s'))
      | _ \<Rightarrow> (RL_ERROR_INVALID_POINTER, h))"

subsection \<open>The descriptor loader\<close>

text \<open>
  Modelled from the spec: \<^verbatim>\<open>rl::math::constants::deg2rad\<close> is a constant of the library's
  \<^verbatim>\<open>rl/math/Constants.h\<close>, which is not in the repository; the spec gives the factor as
  \<open>\<pi>/180\<close>.
\<close>

definition deg2rad :: real where
  "deg2rad = pi / 180"

text \<open>
  The product of two \<^verbatim>\<open>double\<close>s is the exact product rounded to the nearest binary64 value,
  ties to the even significand. \<open>binade x\<close> is the exponent of \<open>x\<close>, \<open>\<lfloor>log\<^sub>2 \<bar>x\<bar>\<rfloor>\<close> (lemma
  \<open>binade_bounds\<close>), computed from the bit length of the integer part of \<open>\<bar>x\<bar>\<close>, or of
  its inverse below 1;
  a binary64 value has 53 significant bits, so its last place is worth
  \<open>2\<^sup>e\<^sup>-\<^sup>5\<^sup>2\<close>, with the exponent held at \<open>-1022\<close> for subnormal values. Products beyond the
  largest binary64 value are not met before the conversion below is out of range.
\<close>

definition pow2 :: "int \<Rightarrow> real" where
  "pow2 k = (if k \<ge> 0 then 2 ^ nat k else 1 / 2 ^ nat (- k))"

definition binade :: "real \<Rightarrow> int" where
  "binade x =
     (if \<bar>x\<bar> \<ge> 1 then bitlen \<lfloor>\<bar>x\<bar>\<rfloor> - 1
      else - bitlen (\<lceil>1 / \<bar>x\<bar>\<rceil> - 1))"

definition round_half_even :: "real \<Rightarrow> int" where
  "round_half_even y =
     (let f = \<lfloor>y\<rfloor>; r = y - of_int f
      in if r < 1 / 2 then f else if r > 1 / 2 then f + 1 else if even f then f else f + 1)"

definition round_double :: "real \<Rightarrow> real" where
  "round_double x =
     (if x = 0 then 0
      else let u = pow2 (max (binade x) (- 1022) - 52)
           in of_int (round_half_even (x / u)) * u)"

text \<open>
  \<^verbatim>\<open>static_cast<int>\<close> of a \<^verbatim>\<open>double\<close>: the fractional part is discarded. C++ defines the
  conversion only when the result fits an \<^verbatim>\<open>int\<close>; outside that range the conversion
  instruction of x86-64 delivers \<^verbatim>\<open>INT_MIN\<close>.
\<close>

definition double_to_int :: "real \<Rightarrow> int" where
  "double_to_int x =
     (if - (2 ^ 31) - 1 < x \<and> x < 2 ^ 31 then (if x \<ge> 0 then \<lfloor>x\<rfloor> else \<lceil>x\<rceil>)
      else - (2 ^ 31))"

text \<open>
  \<^verbatim>\<open>static_cast<int>\<close> of a \<^verbatim>\<open>size_t\<close>: the low 32 bits, read as a signed number.
\<close>

definition size_t_to_int :: "nat \<Rightarrow> int" where
  "size_t_to_int n =
     (let m = int (n mod 2 ^ 32) in if m < 2 ^ 31 then m else m - 2 ^ 32)"

definition plan_delta :: "xml_doc \<Rightarrow> real" where
  "plan_delta doc =
     (if delta_count doc > 0 then
        (if delta_unit doc = ''deg'' then delta_number doc * deg2rad else delta_number doc)
      else 1.0)"

definition plan_epsilon :: "xml_doc \<Rightarrow> real" where
  "plan_epsilon doc =
     (if epsilon_count doc > 0 then
        (if epsilon_unit doc = ''deg'' then epsilon_number doc * deg2rad else epsilon_number doc)
      else 0.001)"

definition plan_timeoutMs :: "xml_doc \<Rightarrow> int" where
  "plan_timeoutMs doc =
     (if duration_count doc > 0
      then double_to_int (round_double (duration_number doc * 1000.0))
      else 120000)"

definition plan_type :: "xml_doc \<Rightarrow> string" where
  "plan_type doc =
     (if root_name doc = ''rlplan'' \<or> root_name doc = ''plan'' then
        (if planner_names doc \<noteq> [] then hd (planner_names doc) else ''rrtConCon'')
      else root_name doc)"

text \<open>One \<^verbatim>\<open>q\<close> element: \<^verbatim>\<open>atof\<close> of its text, times \<^verbatim>\<open>deg2rad\<close> when its unit is \<^verbatim>\<open>"deg"\<close>.\<close>

definition q_radians :: "q_node \<Rightarrow> real" where
  "q_radians q = (if q_unit q = ''deg'' then q_value q * deg2rad else q_value q)"

text \<open>The document interpreted: the parsed file, or the result of applying it as a stylesheet.\<close>

definition read_plan :: "engine \<Rightarrow> string \<Rightarrow> xml_doc outcome" where
  "read_plan e xmlPath =
     (case xml_readFile e xmlPath of
        Throws x \<Rightarrow> Throws x
      | Returns document \<Rightarrow>
          if (root_name document = ''stylesheet'' \<or> root_name document = ''transform'')
             \<and> root_version document = ''1.0''
             \<and> root_namespace document = Some ''http://www.w3.org/1999/XSL/Transform''
          then stylesheet_apply e document
          else Returns document)"

text \<open>The tail of \<^verbatim>\<open>LoadPlanXml\<close>, after both loads succeeded.\<close>

definition materialize :: "xml_doc \<Rightarrow> session \<Rightarrow> session" where
  "materialize doc s =
     (let s1 = (if start_q doc \<noteq> [] then s\<lparr>start := Some (map q_radians (start_q doc))\<rparr> else s)
      in (if goal_q doc \<noteq> [] then s1\<lparr>goal := Some (map q_radians (goal_q doc))\<rparr> else s1))"

definition build_planner :: "xml_doc \<Rightarrow> session \<Rightarrow> int \<times> session" where
  "build_planner doc s =
     (let s1 = s\<lparr>sampler := Some \<lparr>sa_model = model s\<rparr>\<rparr>;
          s2 = s1\<lparr>verifier := Some \<lparr>v_delta = plan_delta doc, v_model = model s1\<rparr>\<rparr>;
          s3 = s2\<lparr>nearestNeighbors := Some \<lparr>nn_model = model s2\<rparr>\<rparr>;
          s4 = s3\<lparr>optimizer := Some \<lparr>o_model = model s3, o_verifier = verifier s3\<rparr>\<rparr>;
          s5 = s4\<lparr>planner := createPlanner (plan_type doc) (sampler s4) (verifier s4)
                                  (nearestNeighbors s4) (plan_delta doc) (plan_epsilon doc)\<rparr>
      in case planner s5 of
           None \<Rightarrow> (RL_ERROR_LOAD_FAILED, s5)
         | Some p \<Rightarrow>
             let p1 = p\<lparr>p_model := model s5, p_duration := Some (plan_timeoutMs doc)\<rparr>;
                 p2 = (if start s5 \<noteq> None then p1\<lparr>p_start := Some Stored_start\<rparr> else p1);
                 p3 = (if goal s5 \<noteq> None then p2\<lparr>p_goal := Some Stored_goal\<rparr> else p2)
             in (RL_SUCCESS, s5\<lparr>planner := Some p3\<rparr>))"

definition LoadPlanXml_body :: "engine \<Rightarrow> session \<Rightarrow> string \<Rightarrow> int \<times> session" where
  "LoadPlanXml_body e s xmlPath =
     (case read_plan e xmlPath of
        Throws x \<Rightarrow> (catch_load x, s)
      | Returns doc \<Rightarrow>
          if scene_hrefs doc = [] then (RL_ERROR_LOAD_FAILED, s)
          else if kinematics_hrefs doc = [] then (RL_ERROR_LOAD_FAILED, s)
          else
            let s1 = s\<lparr>plannerType := plan_type doc, delta := plan_delta doc,
                       epsilon := plan_epsilon doc, timeoutMs := plan_timeoutMs doc\<rparr>
            in
      (case LoadKinematics_body e s1 (hd (kinematics_hrefs doc)) of (result, s2) \<Rightarrow>
          if result \<noteq> RL_SUCCESS then (result, s2)
          else
      (case LoadScene_body e s2 (hd (scene_hrefs doc)) (size_t_to_int (model_index doc)) of (result', s3) \<Rightarrow>
          if result' \<noteq> RL_SUCCESS then (result', s3)
          else build_planner doc (materialize doc s3))))"

definition LoadPlanXml ::
  "engine \<Rightarrow> session option \<Rightarrow> string option \<Rightarrow> int \<times> session option" where
  "LoadPlanXml e h xmlPath =
     (case (h, xmlPath) of
        (Some s, Some path) \<Rightarrow>
          (case LoadPlanXml_body e s path of (c, s') \<Rightarrow> (c, Some s'))
      | _ \<Rightarrow> (RL_ERROR_INVALID_POINTER, h))"

section \<open>Start and goal\<close>

text \<open>
  \<^verbatim>\<open>SetStartConfiguration\<close> on a non-null handle and array. Both handlers return
  \<^verbatim>\<open>RL_ERROR_EXCEPTION\<close>. The values are copied into the stored vector before the model
  is asked whether they are valid.
\<close>

definition SetStartConfiguration_body ::
  "engine \<Rightarrow> session \<Rightarrow> carray \<Rightarrow> int \<Rightarrow> int \<times> session" where
  "SetStartConfiguration_body e s config configSize =
     (if configSize \<le> 0 then (RL_ERROR_INVALID_PARAMETER, s)
      else if \<not> initialized s \<or> model s = None then (RL_ERROR_NOT_INITIALIZED, s)
      else case getDofPosition e (the (model s)) of
        Throws x \<Rightarrow> (RL_ERROR_EXCEPTION, s)
      | Returns dof \<Rightarrow>
          if configSize \<noteq> int dof then (RL_ERROR_INVALID_PARAMETER, s)
          else
            let s1 = s\<lparr>start := Some (copy_array config dof)\<rparr>
            in
      (case model_isValid e (the (model s1)) (the (start s1)) of
        Throws x \<Rightarrow> (RL_ERROR_EXCEPTION, s1)
      | Returns valid \<Rightarrow>
          if \<not> valid then (RL_ERROR_INVALID_PARAMETER, s1)
          else
            (RL_SUCCESS,
             case planner s1 of
               Some p \<Rightarrow> s1\<lparr>planner := Some (p\<lparr>p_start := Some Stored_start\<rparr>)\<rparr>
             | None \<Rightarrow> s1)))"

definition SetStartConfiguration ::
  "engine \<Rightarrow> session option \<Rightarrow> carray option \<Rightarrow> int \<Rightarrow> int \<times> session option" where
  "SetStartConfiguration e h config configSize =
     (case (h, config) of
        (Some s, Some a) \<Rightarrow>
          (case SetStartConfiguration_body e s a configSize of (c, s') \<Rightarrow> (c, Some s'))
      | _ \<Rightarrow> (RL_ERROR_INVALID_POINTER, h))"

definition SetGoalConfiguration_body ::
  "engine \<Rightarrow> session \<Rightarrow> carray \<Rightarrow> int \<Rightarrow> int \<times> session" where
  "SetGoalConfiguration_body e s config configSize =
     (if configSize \<le> 0 then (RL_ERROR_INVALID_PARAMETER, s)
      else if \<not> initialized s \<or> model s = None then (RL_ERROR_NOT_INITIALIZED, s)
      else case getDofPosition e (the (model s)) of
        Throws x \<Rightarrow> (RL_ERROR_EXCEPTION, s)
      | Returns dof \<Rightarrow>
          if configSize \<noteq> int dof then (RL_ERROR_INVALID_PARAMETER, s)
          else
            let s1 = s\<lparr>goal := Some (copy_array config dof)\<rparr>
            in
      (case model_isValid e (the (model s1)) (the (goal s1)) of
        Throws x \<Rightarrow> (RL_ERROR_EXCEPTION, s1)
      | Returns valid \<Rightarrow>
          if \<not> valid then (RL_ERROR_INVALID_PARAMETER, s1)
          else
            (RL_SUCCESS,
             case planner s1 of
               Some p \<Rightarrow> s1\<lparr>planner := Some (p\<lparr>p_goal := Some Stored_goal\<rparr>)\<rparr>
             | None \<Rightarrow> s1)))"

definition SetGoalConfiguration ::
  "engine \<Rightarrow> session option \<Rightarrow> carray option \<Rightarrow> int \<Rightarrow> int \<times> session option" where
  "SetGoalConfiguration e h config configSize =
     (case (h, config) of
        (Some s, Some a) \<Rightarrow>
          (case SetGoalConfiguration_body e s a configSize of (c, s') \<Rightarrow> (c, Some s'))
      | _ \<Rightarrow> (RL_ERROR_INVALID_POINTER, h))"

section \<open>Queries\<close>

text \<open>
  \<^verbatim>\<open>IsValidConfiguration\<close> on a non-null handle and array. The verifier is the stored one, or
  one created here and stored. The handlers around the verifier call return
  \<^verbatim>\<open>isValidResult ? 1 : 0\<close>, as does the branch for a verifier that is still null.
\<close>

definition probe_verifier :: "session \<Rightarrow> session" where
  "probe_verifier s =
     (if verifier s = None \<and> model s \<noteq> None
      then s\<lparr>verifier := Some \<lparr>v_delta = (if delta s > 0 then delta s else 0.1),
                                v_model = model s\<rparr>\<rparr>
      else s)"

definition IsValidConfiguration_body ::
  "engine \<Rightarrow> session \<Rightarrow> carray \<Rightarrow> int \<Rightarrow> int \<times> session" where
  "IsValidConfiguration_body e s config configSize =
     (if \<not> initialized s \<or> model s = None then (0, s)
      else if kinematics s = None then (0, s)
      else if sm_kin (the (model s)) = None \<and> sm_mdl (the (model s)) = None then (0, s)
      else if sm_model (the (model s)) = None \<or> sm_scene (the (model s)) = None then (0, s)
      else case getDofPosition e (the (model s)) of
        Throws x \<Rightarrow> (0, s)
      | Returns dof \<Rightarrow>
          if configSize \<noteq> int dof then (0, s)
          else
            let q = copy_array config dof
            in
      (case model_isValid e (the (model s)) q of
        Throws x \<Rightarrow> (0, s)
      | Returns isValidResult \<Rightarrow>
          if \<not> isValidResult then (0, s)
          else
            let s1 = probe_verifier s
            in
      (case verifier s1 of
        None \<Rightarrow> (if isValidResult then 1 else 0, s1)
      | Some v \<Rightarrow>
      (case verifier_isValid e v [q, q] of
        Throws x \<Rightarrow> (if isValidResult then 1 else 0, s1)
      | Returns collisionFree \<Rightarrow>
          if \<not> collisionFree then (0, s1) else (1, s1)))))"

definition IsValidConfiguration ::
  "engine \<Rightarrow> session option \<Rightarrow> carray option \<Rightarrow> int \<Rightarrow> int \<times> session option" where
  "IsValidConfiguration e h config configSize =
     (case (h, config) of
        (Some s, Some a) \<Rightarrow>
          (case IsValidConfiguration_body e s a configSize of (c, s') \<Rightarrow> (c, Some s'))
      | _ \<Rightarrow> (0, h))"

text \<open>\<^verbatim>\<open>GetDof\<close>; it changes nothing.\<close>

definition GetDof :: "engine \<Rightarrow> session option \<Rightarrow> int" where
  "GetDof e h =
     (case h of
        None \<Rightarrow> RL_ERROR_INVALID_POINTER
      | Some s \<Rightarrow>
          if \<not> initialized s \<or> model s = None then RL_ERROR_NOT_INITIALIZED
          else (case getDofPosition e (the (model s)) of
                  Throws x \<Rightarrow> RL_ERROR_EXCEPTION
                | Returns dof \<Rightarrow> int dof))"

section \<open>A concrete engine, descriptors and sessions\<close>

text \<open>
  Inputs on which the theorems below are exercised: a three-joint robot whose joints are
  limited to \<open>[-4, 4]\<close>, an empty scene, and a planner that connects start and goal directly.
\<close>

definition array_of :: "real list \<Rightarrow> carray" where
  "array_of xs = (\<lambda>i. xs ! i)"

definition blank :: carray where
  "blank = (\<lambda>i. 0)"

definition demo_doc :: xml_doc where
  "demo_doc =
     \<lparr>root_name = ''rlplan'', root_version = [], root_namespace = None,
      scene_hrefs = [''scene.xml''], kinematics_hrefs = [''kin.xml''], model_index = 0,
      planner_names = [''rrt''],
      delta_count = 1, delta_number = 5, delta_unit = ''deg'',
      epsilon_count = 0, epsilon_number = 0, epsilon_unit = [],
      duration_count = 1, duration_number = 2,
      start_q = [\<lparr>q_value = 90, q_unit = ''deg''\<rparr>, \<lparr>q_value = 0, q_unit = []\<rparr>,
                 \<lparr>q_value = 0.3, q_unit = []\<rparr>],
      goal_q = []\<rparr>"

text \<open>A descriptor whose start has one \<^verbatim>\<open>q\<close> element only.\<close>

definition short_doc :: xml_doc where
  "short_doc = demo_doc\<lparr>start_q := [\<lparr>q_value = 1, q_unit = []\<rparr>]\<rparr>"

definition demo_engine :: engine where
  "demo_engine =
     \<lparr>compiled_backend = Some FCL,
      is_distance_scene = (\<lambda>b. False),
      is_simple_scene = (\<lambda>b. True),
      mdl_factory_create = (\<lambda>path. Throws Std_exception),
      kin_create = (\<lambda>path. Returns \<lparr>kin_source = path, kin_dynamic = False\<rparr>),
      scene_load = (\<lambda>b path. Returns 1),
      getDofPosition = (\<lambda>m. Returns 3),
      model_isValid = (\<lambda>m q. Returns (list_all (\<lambda>x. \<bar>x\<bar> \<le> 4) q)),
      verifier_isValid = (\<lambda>v path. Returns True),
      planner_verify = (\<lambda>p a b. Returns True),
      planner_solve = (\<lambda>p a b. Returns True),
      planner_getPath = (\<lambda>p a b. Returns [a, b]),
      optimizer_process = (\<lambda>opt path. Returns path),
      xml_readFile = (\<lambda>path. if path = ''short.xml'' then Returns short_doc
                              else Returns demo_doc),
      stylesheet_apply = (\<lambda>doc. Returns doc)\<rparr>"




text \<open>The same engine with a verifier that throws, and with a planner whose \<^verbatim>\<open>verify()\<close> fails.\<close>

definition throwing_engine :: engine where
  "throwing_engine = demo_engine\<lparr>verifier_isValid := (\<lambda>v path. Throws Std_exception)\<rparr>"

definition rejecting_engine :: engine where
  "rejecting_engine = demo_engine\<lparr>planner_verify := (\<lambda>p a b. Returns False)\<rparr>"

text \<open>
  The session after \<^verbatim>\<open>LoadKinematics\<close> and \<^verbatim>\<open>LoadScene\<close>, then with a start and a goal set, then
  after a first plan with the \<^verbatim>\<open>rrt\<close> planner, which stays on the session.
\<close>

definition loaded_session :: session where
  "loaded_session =
     snd (LoadScene_body demo_engine
            (snd (LoadKinematics_body demo_engine CreatePlanner ''kin.xml'')) ''scene.xml'' 0)"

definition ready_session :: session where
  "ready_session =
     snd (SetGoalConfiguration_body demo_engine
            (snd (SetStartConfiguration_body demo_engine loaded_session
                    (array_of [0, 0, 0.3]) 3))
            (array_of [1, 1, 0.9]) 3)"

definition planned_session :: session where
  "planned_session =
     st (PlanTrajectory_body demo_engine ready_session None 0 None 0 1 (Some ''rrt'')
           0 0 0 blank 8 0)"

text \<open>The planning model and the planner these sessions hold.\<close>

definition demo_model :: simple_model where
  "demo_model =
     \<lparr>sm_kin = Some \<lparr>kin_source = ''kin.xml'', kin_dynamic = False\<rparr>, sm_mdl = None,
      sm_model = Some 0,
      sm_scene = Some \<lparr>sc_backend = FCL, sc_source = Some ''scene.xml'', sc_numModels = 1\<rparr>\<rparr>"

definition demo_planner :: planner_obj where
  "demo_planner =
     \<lparr>p_kind = Rrt 0.1 0.001, p_sampler = Some \<lparr>sa_model = Some demo_model\<rparr>,
      p_verifier = None, p_nn = Some \<lparr>nn_model = Some demo_model\<rparr>,
      p_model = Some demo_model, p_duration = Some 30000,
      p_start = Some Stored_start, p_goal = Some Stored_goal\<rparr>"

text \<open>
  What \<^verbatim>\<open>PlanTrajectory\<close> prepares on the session with start and goal when it is given
  \<open>delta = 0.5\<close> and \<open>timeoutMs = 250\<close>, and on the session that already holds a planner.
\<close>

definition override_planner :: planner_obj where
  "override_planner = demo_planner\<lparr>p_kind := Rrt 0.5 0.001, p_duration := Some 250\<rparr>"

definition override_prepared :: prepared where
  "override_prepared =
     \<lparr>pr_session = ready_session
        \<lparr>planner := Some override_planner,
         sampler := Some \<lparr>sa_model = Some demo_model\<rparr>,
         verifier := Some \<lparr>v_delta = 0.5, v_model = Some demo_model\<rparr>,
         nearestNeighbors := Some \<lparr>nn_model = Some demo_model\<rparr>,
         plannerType := ''rrt'', delta := 0.5, timeoutMs := 250\<rparr>,
      pr_planner = override_planner, pr_start = [0, 0, 0.3], pr_goal = [1, 1, 0.9],
      pr_dof = 3\<rparr>"

definition reused_prepared :: prepared where
  "reused_prepared =
     \<lparr>pr_session = planned_session, pr_planner = demo_planner, pr_start = [0, 0, 0.3],
      pr_goal = [1, 1, 0.9], pr_dof = 3\<rparr>"

section \<open>Observations used in the statements\<close>

text \<open>
  The resolution and the tolerance a planner works with: the RRT family carries both, the
  PRM planner carries neither.
\<close>

fun used_delta :: "planner_kind \<Rightarrow> real option" where
  "used_delta (Rrt d ep) = Some d"
| "used_delta (RrtConCon d ep) = Some d"
| "used_delta (RrtGoalBias d ep pr) = Some d"
| "used_delta (Prm dg k r) = None"

fun used_epsilon :: "planner_kind \<Rightarrow> real option" where
  "used_epsilon (Rrt d ep) = Some ep"
| "used_epsilon (RrtConCon d ep) = Some ep"
| "used_epsilon (RrtGoalBias d ep pr) = Some ep"
| "used_epsilon (Prm dg k r) = None"

text \<open>
  The planning model references exactly one view, kinematic or dynamic, of the kinematics
  the session holds now.
\<close>

definition view_ok :: "session \<Rightarrow> bool" where
  "view_ok s =
     (case (model s, kinematics s) of
        (Some m, Some k) \<Rightarrow>
          (sm_kin m = Some k \<and> sm_mdl m = None) \<or> (sm_mdl m = Some k \<and> sm_kin m = None)
      | _ \<Rightarrow> False)"

definition view_inv :: "session \<Rightarrow> bool" where
  "view_inv s = (initialized s \<longrightarrow> view_ok s)"

text \<open>What no call but the loaders changes.\<close>

definition frame :: "session \<Rightarrow> session \<Rightarrow> bool" where
  "frame s s' \<longleftrightarrow> model s' = model s \<and> kinematics s' = kinematics s
                  \<and> initialized s' = initialized s \<and> start s' = start s \<and> goal s' = goal s"

text \<open>The session of \<^verbatim>\<open>LoadScene\<close> once the scene is loaded and the robot model is taken.\<close>

definition scene_loaded :: "session \<Rightarrow> backend \<Rightarrow> string \<Rightarrow> nat \<Rightarrow> int \<Rightarrow> session" where
  "scene_loaded s b path n idx =
     s\<lparr>scene := Some \<lparr>sc_backend = b, sc_source = Some path, sc_numModels = n\<rparr>,
       robotModel := Some (nat idx)\<rparr>"

section \<open>Facts about the helpers\<close>

lemmas rl_codes = RL_SUCCESS_def RL_ERROR_INVALID_POINTER_def RL_ERROR_INVALID_PARAMETER_def
  RL_ERROR_LOAD_FAILED_def RL_ERROR_PLANNING_FAILED_def RL_ERROR_NOT_INITIALIZED_def
  RL_ERROR_EXCEPTION_def

text \<open>What the copy loop leaves at offset \<open>k\<close> of the buffer.\<close>

lemma fold_row:
  "fold (\<lambda>j buf. buf(b + j := w ! j)) [0..<n] wp k =
     (if b \<le> k \<and> k < b + n then w ! (k - b) else wp k)"
proof (induction n)
  case 0
  show ?case by auto
next
  case (Suc n)
  show ?case
  proof (cases "k = b + n")
    case True
    then show ?thesis by simp
  next
    case False
    with Suc show ?thesis by auto
  qed
qed

lemma write_row_apply:
  "write_row wp idx dof w k =
     (if idx * dof \<le> k \<and> k < idx * dof + dof then w ! (k - idx * dof) else wp k)"
  unfolding write_row_def by (rule fold_row)

lemma row_bounds:
  fixes k :: nat
  shows "(idx * dof \<le> k \<and> k < idx * dof + dof) \<longleftrightarrow> (0 < dof \<and> k div dof = idx)"
proof (cases "dof = 0")
  case True
  then show ?thesis by simp
next
  case False
  then have pos: "0 < dof" by simp
  show ?thesis
  proof
    assume a: "idx * dof \<le> k \<and> k < idx * dof + dof"
    then have "k div dof = idx"
      by (intro div_nat_eqI) (simp_all add: mult.commute)
    with pos show "0 < dof \<and> k div dof = idx" by simp
  next
    assume b: "0 < dof \<and> k div dof = idx"
    have "k div dof * dof \<le> k" by simp
    moreover have "k < k div dof * dof + dof"
      using pos by (metis add.commute dividend_less_div_times)
    ultimately show "idx * dof \<le> k \<and> k < idx * dof + dof" using b by simp
  qed
qed

lemma write_row_div:
  "write_row wp idx dof w k =
     (if 0 < dof \<and> k div dof = idx then w ! (k mod dof) else wp k)"
proof -
  have "k div dof = idx \<Longrightarrow> k - idx * dof = k mod dof"
    by (auto simp: minus_div_mult_eq_mod)
  then show ?thesis
    unfolding write_row_apply row_bounds by auto
qed

lemma copy_waypoints_apply:
  "copy_waypoints ws idx count dof wp k =
     (if 0 < dof \<and> idx \<le> k div dof \<and> k div dof < idx + length ws \<and> int (k div dof) < count
      then ws ! (k div dof - idx) ! (k mod dof)
      else wp k)"
proof (induction ws arbitrary: idx wp)
  case Nil
  show ?case by auto
next
  case (Cons w ws)
  show ?case
  proof (cases "int idx < count")
    case False
    then show ?thesis by auto
  next
    case True
    show ?thesis
    proof (cases "0 < dof \<and> k div dof = idx")
      case here: True
      then show ?thesis using True by (simp add: Cons.IH write_row_div)
    next
      case there: False
      show ?thesis
      proof (cases "0 < dof \<and> Suc idx \<le> k div dof \<and> k div dof < Suc idx + length ws \<and> int (k div dof) < count")
        case a: True
        then have "k div dof - idx = Suc (k div dof - Suc idx)" by linarith
        with a True there show ?thesis by (simp add: Cons.IH write_row_div)
      next
        case b: False
        have nb: "\<not> (0 < dof \<and> idx \<le> k div dof \<and> k div dof < idx + length (w # ws) \<and> int (k div dof) < count)"
          using b there by auto
        have "copy_waypoints (w # ws) idx count dof wp k =
                copy_waypoints ws (Suc idx) count dof (write_row wp idx dof w) k"
          using True by simp
        also have "\<dots> = write_row wp idx dof w k"
          using b by (simp only: Cons.IH if_False)
        also have "\<dots> = wp k"
          using there by (simp only: write_row_div if_False)
        finally show ?thesis using nb by (simp only: if_False)
      qed
    qed
  qed
qed


section \<open>The concrete sessions, evaluated\<close>

lemma copy_array_of [simp]: "n = length xs \<Longrightarrow> copy_array (array_of xs) n = xs"
  by (simp add: copy_array_def array_of_def map_nth)

lemma demo_engine_simps [simp]:
  "compiled_backend demo_engine = Some FCL"
  "is_distance_scene demo_engine b = False"
  "is_simple_scene demo_engine b = True"
  "mdl_factory_create demo_engine path = Throws Std_exception"
  "kin_create demo_engine path = Returns \<lparr>kin_source = path, kin_dynamic = False\<rparr>"
  "scene_load demo_engine b path = Returns 1"
  "getDofPosition demo_engine m = Returns 3"
  "model_isValid demo_engine m q = Returns (list_all (\<lambda>x. \<bar>x\<bar> \<le> 4) q)"
  "verifier_isValid demo_engine v ps = Returns True"
  "planner_verify demo_engine p a c = Returns True"
  "planner_solve demo_engine p a c = Returns True"
  "planner_getPath demo_engine p a c = Returns [a, c]"
  "optimizer_process demo_engine opt ps = Returns ps"
  "xml_readFile demo_engine path =
     (if path = ''short.xml'' then Returns short_doc else Returns demo_doc)"
  "stylesheet_apply demo_engine doc = Returns doc"
  by (simp_all add: demo_engine_def)

lemma loaded_session_eq:
  "loaded_session =
     CreatePlanner
       \<lparr>scene := Some \<lparr>sc_backend = FCL, sc_source = Some ''scene.xml'', sc_numModels = 1\<rparr>,
        kinematics := Some \<lparr>kin_source = ''kin.xml'', kin_dynamic = False\<rparr>,
        model := Some demo_model, robotModel := Some 0, initialized := True\<rparr>"
  by (simp add: loaded_session_def LoadScene_body_def LoadKinematics_body_def
      load_plain_kinematics_def wire_model_def CreatePlanner_def rl_codes Let_def demo_model_def)

lemma ready_session_eq:
  "ready_session = loaded_session\<lparr>start := Some [0, 0, 0.3], goal := Some [1, 1, 0.9]\<rparr>"
  by (simp add: ready_session_def SetStartConfiguration_body_def SetGoalConfiguration_body_def
      loaded_session_eq CreatePlanner_def Let_def rl_codes)

lemma ready_prepare:
  "prepare_plan demo_engine ready_session None 0 None 0 z (Some ''rrt'') 0 0 0 =
     Inr \<lparr>pr_session = ready_session
            \<lparr>planner := Some demo_planner,
             sampler := Some \<lparr>sa_model = Some demo_model\<rparr>,
             verifier := Some \<lparr>v_delta = 0.1, v_model = Some demo_model\<rparr>,
             nearestNeighbors := Some \<lparr>nn_model = Some demo_model\<rparr>,
             plannerType := ''rrt''\<rparr>,
          pr_planner = demo_planner, pr_start = [0, 0, 0.3], pr_goal = [1, 1, 0.9],
          pr_dof = 3\<rparr>"
  by (simp add: prepare_plan_def resolve_start_def resolve_goal_def new_planner_def
      create_components_def choose_type_def createPlanner_def deref_def demo_planner_def
      ready_session_eq loaded_session_eq CreatePlanner_def Let_def)

lemma planned_session_eq:
  "planned_session = ready_session
            \<lparr>planner := Some demo_planner,
             sampler := Some \<lparr>sa_model = Some demo_model\<rparr>,
             verifier := Some \<lparr>v_delta = 0.1, v_model = Some demo_model\<rparr>,
             nearestNeighbors := Some \<lparr>nn_model = Some demo_model\<rparr>,
             plannerType := ''rrt''\<rparr>"
  by (simp add: planned_session_def PlanTrajectory_body_def ready_prepare run_planner_def Let_def)

lemma PlanTrajectory_nonnull:
  "PlanTrajectory e (Some s) sa sn ga gn z ty d ep t (Some w) mx (Some c) =
     Inr (PlanTrajectory_body e s sa sn ga gn z ty d ep t w mx c)"
  by (simp add: PlanTrajectory_def)

lemma planned_prepare:
  "prepare_plan demo_engine planned_session None 0 None 0 z ty d ep 0 =
     Inr \<lparr>pr_session = planned_session,
          pr_planner = demo_planner, pr_start = [0, 0, 0.3], pr_goal = [1, 1, 0.9],
          pr_dof = 3\<rparr>"
  by (simp add: prepare_plan_def resolve_start_def resolve_goal_def deref_def demo_planner_def
      planned_session_eq ready_session_eq loaded_session_eq CreatePlanner_def Let_def)

lemma demo_run:
  "run_planner demo_engine pr = Solved [pr_start pr, pr_goal pr]"
  by (simp add: run_planner_def)

lemma rejecting_engine_simps [simp]:
  "getDofPosition rejecting_engine m = Returns 3"
  "planner_verify rejecting_engine p a c = Returns False"
  by (simp_all add: rejecting_engine_def demo_engine_def)

section \<open>Facts about PlanTrajectory\<close>

lemma catch_plan_nonzero: "catch_plan x \<noteq> 0"
  by (cases x) (simp_all add: catch_plan_def rl_codes)

lemma resolve_start_code: "resolve_start s a n d = Inl c \<Longrightarrow> c = RL_ERROR_INVALID_PARAMETER"
  by (auto simp: resolve_start_def split: if_splits)

lemma resolve_goal_code: "resolve_goal s a n z d sv = Inl c \<Longrightarrow> c = RL_ERROR_INVALID_PARAMETER"
  by (auto simp: resolve_goal_def Let_def split: if_splits)

lemma prepare_plan_code:
  assumes "prepare_plan e s sa sn ga gn z ty d ep t = Inl (c, s')"
  shows "c \<noteq> RL_SUCCESS"
  using assms
  unfolding prepare_plan_def
  by (auto simp: catch_plan_nonzero Let_def rl_codes dest!: resolve_start_code resolve_goal_code
      split: if_splits outcome.splits sum.splits option.splits prod.splits)

lemma run_planner_code: "run_planner e pr = Aborted c \<Longrightarrow> c \<noteq> RL_SUCCESS"
  unfolding run_planner_def
  by (auto simp: catch_plan_nonzero rl_codes split: outcome.splits if_splits)

lemma success_solved:
  assumes "rc (PlanTrajectory_body e s sa sn ga gn z ty d ep t w maxW c) = RL_SUCCESS"
  obtains pr path where "prepare_plan e s sa sn ga gn z ty d ep t = Inr pr"
    and "run_planner e pr = Solved path"
proof (cases "prepare_plan e s sa sn ga gn z ty d ep t")
  case (Inl a)
  obtain c' s' where "a = (c', s')" by (cases a)
  with Inl assms prepare_plan_code[of e s sa sn ga gn z ty d ep t c' s'] show ?thesis
    by (simp add: PlanTrajectory_body_def)
next
  case (Inr pr)
  show ?thesis
  proof (cases "run_planner e pr")
    case (Aborted c')
    with Inr assms run_planner_code[of e pr c'] show ?thesis
      by (simp add: PlanTrajectory_body_def)
  next
    case Not_solved
    with Inr assms show ?thesis
      by (simp add: PlanTrajectory_body_def rl_codes)
  next
    case (Solved path)
    with Inr that show ?thesis by blast
  qed
qed

lemma per_call_goal_constrained:
  assumes "prepare_plan e s startArr startSize (Some g) goalSize 0 ty d ep t = Inr pr"
    and "goalSize > 0" and "pr_dof pr \<ge> 3"
  shows "pr_goal pr ! (pr_dof pr - 1) = pr_start pr ! (pr_dof pr - 1)"
  using assms
  unfolding prepare_plan_def resolve_goal_def
  by (auto simp: Let_def deref_def constrainZAxis_def copy_array_def nat_diff_distrib'
      split: if_splits outcome.splits sum.splits option.splits prod.splits)

lemma outputs_on_failure:
  assumes "r = PlanTrajectory_body e s sa sn ga gn z ty d ep t w mx c"
    and "rc r \<noteq> RL_SUCCESS"
  shows "wp_out r = w \<and> (cnt_out r = c \<or> (rc r = RL_ERROR_PLANNING_FAILED \<and> cnt_out r = 0))"
  using assms
  by (auto simp: PlanTrajectory_body_def Let_def split: sum.splits prod.splits solve_result.splits)

section \<open>Facts about the planner construction\<close>

lemma createPlanner_unknown:
  "\<not> known_planner_type ty \<Longrightarrow> createPlanner ty sa ve nn d ep = None"
  by (simp add: createPlanner_def known_planner_type_def)

lemma createPlanner_kind:
  assumes "createPlanner ty sa ve nn d ep = Some p"
  shows "p_kind p = Rrt d ep \<or> p_kind p = RrtConCon d ep \<or> p_kind p = RrtGoalBias d ep 0.05
     \<or> p_kind p = Prm size_t_max 30 Real_max"
proof -
  define c1 where "c1 \<longleftrightarrow> ty = ''rrt'' \<or> ty = ''RRT''"
  define c2 where "c2 \<longleftrightarrow> ty = ''rrtConnect'' \<or> ty = ''RRTConnect'' \<or> ty = ''rrtConCon''
                    \<or> ty = ''RRTConCon''"
  define c3 where "c3 \<longleftrightarrow> ty = ''rrtGoalBias'' \<or> ty = ''RRTGoalBias''"
  define c4 where "c4 \<longleftrightarrow> ty = ''prm'' \<or> ty = ''PRM''"
  have "createPlanner ty sa ve nn d ep =
     (if c1 then
        Some \<lparr>p_kind = Rrt d ep, p_sampler = sa, p_verifier = None, p_nn = nn,
              p_model = None, p_duration = None, p_start = None, p_goal = None\<rparr>
      else if c2 then
        Some \<lparr>p_kind = RrtConCon d ep, p_sampler = sa, p_verifier = None, p_nn = nn,
              p_model = None, p_duration = None, p_start = None, p_goal = None\<rparr>
      else if c3 then
        Some \<lparr>p_kind = RrtGoalBias d ep 0.05, p_sampler = sa, p_verifier = None, p_nn = nn,
              p_model = None, p_duration = None, p_start = None, p_goal = None\<rparr>
      else if c4 then
        Some \<lparr>p_kind = Prm size_t_max 30 Real_max, p_sampler = sa, p_verifier = ve, p_nn = nn,
              p_model = None, p_duration = None, p_start = None, p_goal = None\<rparr>
      else None)"
    unfolding createPlanner_def c1_def c2_def c3_def c4_def by (rule refl)
  with assms show ?thesis
    by (cases c1; cases c2; cases c3; cases c4) auto
qed

lemma createPlanner_delta:
  assumes "createPlanner ty sa ve nn d ep = Some p"
  shows "(\<forall>x. used_delta (p_kind p) = Some x \<longrightarrow> x = d)
       \<and> (\<forall>x. used_epsilon (p_kind p) = Some x \<longrightarrow> x = ep)"
  using createPlanner_kind[OF assms] by auto

lemma create_components_fields [simp]:
  "delta (create_components s d) = delta s"
  "epsilon (create_components s d) = epsilon s"
  "timeoutMs (create_components s d) = timeoutMs s"
  "plannerType (create_components s d) = plannerType s"
  "model (create_components s d) = model s"
  "kinematics (create_components s d) = kinematics s"
  "initialized (create_components s d) = initialized s"
  "start (create_components s d) = start s"
  "goal (create_components s d) = goal s"
  "optimizer (create_components s d) = optimizer s"
  by (simp_all add: create_components_def Let_def)

lemma create_components_verifier:
  "verifier (create_components s d) =
     (case verifier s of
        None \<Rightarrow> Some \<lparr>v_delta = (if d > 0 then d else delta s), v_model = model s\<rparr>
      | Some v \<Rightarrow> Some v)"
  by (simp add: create_components_def Let_def split: option.split)

lemma new_planner_Inr:
  assumes "new_planner s ty d ep t = Inr (s', p)"
  shows "(\<forall>x. used_delta (p_kind p) = Some x \<longrightarrow> x = (if d > 0 then d else delta s))
       \<and> (\<forall>x. used_epsilon (p_kind p) = Some x \<longrightarrow> x = (if ep > 0 then ep else epsilon s))
       \<and> p_duration p = Some (if t > 0 then t else timeoutMs s)
       \<and> verifier s' = verifier (create_components s d)
       \<and> model s' = model s \<and> kinematics s' = kinematics s \<and> initialized s' = initialized s
       \<and> start s' = start s \<and> goal s' = goal s"
proof (cases "createPlanner (choose_type (create_components s d) ty)
                (sampler (create_components s d)) (verifier (create_components s d))
                (nearestNeighbors (create_components s d))
                (if d > 0 then d else delta s) (if ep > 0 then ep else epsilon s)")
  case None
  with assms show ?thesis by (simp add: new_planner_def Let_def cong: if_cong)
next
  case (Some p0)
  with assms have p: "p = p0\<lparr>p_model := model s,
                           p_duration := Some (if t > 0 then t else timeoutMs s)\<rparr>"
    and s': "s' = (create_components s d)\<lparr>planner := Some p,
               plannerType := choose_type (create_components s d) ty,
               delta := (if d > 0 then d else delta s),
               epsilon := (if ep > 0 then ep else epsilon s),
               timeoutMs := (if t > 0 then t else timeoutMs s)\<rparr>"
    by (auto simp add: new_planner_def Let_def cong: if_cong)
  from createPlanner_delta[OF Some] p s' show ?thesis by simp
qed

lemma new_planner_Inl:
  assumes "new_planner s ty d ep t = Inl s'"
  shows "s' = create_components s d"
  using assms by (simp add: new_planner_def Let_def split: option.splits)

section \<open>Facts about the loaders and the frame of the other calls\<close>

lemma view_ok_wire:
  assumes "kinematics s = Some k"
  shows "view_ok (s\<lparr>model := Some (wire_model s)\<rparr>)"
  using assms by (simp add: view_ok_def wire_model_def Let_def)

lemma wire_model_views:
  "(sm_kin (wire_model s) = None \<and> sm_mdl (wire_model s) = None) \<longleftrightarrow> kinematics s = None"
  by (cases "kinematics s") (simp_all add: wire_model_def Let_def)

lemma error_codes_distinct [simp]:
  "RL_ERROR_INVALID_POINTER \<noteq> RL_SUCCESS" "RL_ERROR_INVALID_PARAMETER \<noteq> RL_SUCCESS"
  "RL_ERROR_LOAD_FAILED \<noteq> RL_SUCCESS" "RL_ERROR_PLANNING_FAILED \<noteq> RL_SUCCESS"
  "RL_ERROR_NOT_INITIALIZED \<noteq> RL_SUCCESS" "RL_ERROR_EXCEPTION \<noteq> RL_SUCCESS"
  "catch_load x \<noteq> RL_SUCCESS" "catch_plan x \<noteq> RL_SUCCESS"
  by (simp_all add: rl_codes catch_load_def catch_plan_def split: exn.split)

lemma scene_loaded_fields [simp]:
  "kinematics (scene_loaded s b path n idx) = kinematics s"
  "model (scene_loaded s b path n idx) = model s"
  "initialized (scene_loaded s b path n idx) = initialized s"
  by (simp_all add: scene_loaded_def)

lemma LoadScene_body_loaded:
  assumes "compiled_backend e = Some b" and "scene_load e b path = Returns n"
  shows "LoadScene_body e s path idx =
      (let s3 = scene_loaded s b path n idx in
       if idx < 0 \<or> idx \<ge> int n
       then (RL_ERROR_INVALID_PARAMETER, s3\<lparr>robotModel := robotModel s\<rparr>)
       else if \<not> is_distance_scene e b \<and> \<not> is_simple_scene e b then (RL_ERROR_LOAD_FAILED, s3)
       else if sm_kin (wire_model s3) = None \<and> sm_mdl (wire_model s3) = None
            then (RL_ERROR_NOT_INITIALIZED, s3\<lparr>model := Some (wire_model s3)\<rparr>)
       else if sm_model (wire_model s3) = None \<or> sm_scene (wire_model s3) = None
            then (RL_ERROR_NOT_INITIALIZED, s3\<lparr>model := Some (wire_model s3)\<rparr>)
       else case getDofPosition e (wire_model s3) of
              Throws x \<Rightarrow> (catch_load x, s3\<lparr>model := Some (wire_model s3)\<rparr>)
            | Returns d \<Rightarrow>
                (RL_SUCCESS, s3\<lparr>model := Some (wire_model s3), initialized := True\<rparr>))"
  using assms
  by (simp add: LoadScene_body_def Let_def scene_loaded_def cong: outcome.case_cong if_cong)

lemma LoadScene_success:
  assumes "LoadScene_body e s path idx = (RL_SUCCESS, s')"
  shows "initialized s' \<and> view_ok s'"
proof (cases "compiled_backend e")
  case None
  with assms show ?thesis by (simp add: LoadScene_body_def)
next
  case (Some b)
  show ?thesis
  proof (cases "scene_load e b path")
    case (Throws x)
    with assms Some show ?thesis by (simp add: LoadScene_body_def)
  next
    case (Returns n)
    let ?s3 = "scene_loaded s b path n idx"
    from assms have s': "s' = ?s3\<lparr>model := Some (wire_model ?s3), initialized := True\<rparr>"
      and nn: "\<not> (sm_kin (wire_model ?s3) = None \<and> sm_mdl (wire_model ?s3) = None)"
      unfolding LoadScene_body_loaded[OF Some Returns]
      by (auto simp: Let_def split: if_splits outcome.splits)
    from nn obtain kk where "kinematics ?s3 = Some kk"
      unfolding wire_model_views by auto
    from view_ok_wire[OF this] s' show ?thesis
      by (simp add: view_ok_def)
  qed
qed

lemma view_ok_cong:
  "model s' = model s \<Longrightarrow> kinematics s' = kinematics s \<Longrightarrow> view_ok s' = view_ok s"
  by (simp add: view_ok_def)

lemma view_inv_frame:
  "frame s s' \<Longrightarrow> view_inv s \<Longrightarrow> view_inv s'"
  by (simp add: frame_def view_inv_def view_ok_def)

lemma LoadScene_keeps_view:
  assumes "view_inv s"
  shows "view_inv (snd (LoadScene_body e s path idx))"
proof (cases "compiled_backend e")
  case None
  with assms show ?thesis by (simp add: LoadScene_body_def)
next
  case (Some b)
  show ?thesis
  proof (cases "scene_load e b path")
    case (Throws x)
    with assms Some show ?thesis
      by (simp add: LoadScene_body_def view_inv_def view_ok_def)
  next
    case (Returns n)
    let ?s3 = "scene_loaded s b path n idx"
    have wired: "view_inv (?s3\<lparr>model := Some (wire_model ?s3)\<rparr>)"
    proof (cases "kinematics s")
      case None
      with assms show ?thesis by (simp add: view_inv_def view_ok_def split: option.splits)
    next
      case (Some k)
      then have "kinematics ?s3 = Some k" by simp
      from view_ok_wire[OF this] show ?thesis by (simp add: view_inv_def)
    qed
    then have wired': "view_inv (?s3\<lparr>model := Some (wire_model ?s3), initialized := True\<rparr>)
                       \<or> kinematics s = None"
      by (cases "kinematics s") (simp_all add: view_inv_def view_ok_def wire_model_def Let_def)
    have kept: "view_inv ?s3" "view_inv (?s3\<lparr>robotModel := robotModel s\<rparr>)"
      using assms by (simp_all add: view_inv_def view_ok_def)
    show ?thesis
      unfolding LoadScene_body_loaded[OF Some Returns]
      using wired wired' kept
      by (auto simp: Let_def wire_model_views split: outcome.splits)
  qed
qed

lemma SetStart_frame:
  "model (snd (SetStartConfiguration_body e s a n)) = model s
   \<and> kinematics (snd (SetStartConfiguration_body e s a n)) = kinematics s
   \<and> initialized (snd (SetStartConfiguration_body e s a n)) = initialized s
   \<and> goal (snd (SetStartConfiguration_body e s a n)) = goal s"
  by (simp add: SetStartConfiguration_body_def Let_def split: outcome.split option.split)

lemma SetGoal_frame:
  "model (snd (SetGoalConfiguration_body e s a n)) = model s
   \<and> kinematics (snd (SetGoalConfiguration_body e s a n)) = kinematics s
   \<and> initialized (snd (SetGoalConfiguration_body e s a n)) = initialized s
   \<and> start (snd (SetGoalConfiguration_body e s a n)) = start s"
  by (simp add: SetGoalConfiguration_body_def Let_def split: outcome.split option.split)

lemma IsValid_frame:
  "frame s (snd (IsValidConfiguration_body e s a n))"
  by (simp add: IsValidConfiguration_body_def frame_def probe_verifier_def Let_def
      split: outcome.split option.split)



lemma prepare_frame:
  "(case prepare_plan e s sa sn ga gn z ty d ep t of
      Inl (c, s') \<Rightarrow> frame s s'
    | Inr pr \<Rightarrow> frame s (pr_session pr))"
proof (cases "planner s")
  case (Some p)
  then show ?thesis
    by (simp add: prepare_plan_def frame_def Let_def
        split: outcome.split sum.split prod.split)
next
  case None
  show ?thesis
  proof (cases "new_planner s ty d ep t")
    case (Inl s3)
    with None new_planner_Inl[OF Inl] show ?thesis
      by (simp add: prepare_plan_def frame_def Let_def
          split: outcome.split sum.split prod.split)
  next
    case (Inr sp)
    obtain s4 p where sp: "sp = (s4, p)" by (cases sp)
    with None Inr new_planner_Inr[of s ty d ep t s4 p] show ?thesis
      by (simp add: prepare_plan_def frame_def Let_def
          split: outcome.split sum.split prod.split)
  qed
qed

lemma PlanTrajectory_frame:
  "frame s (st (PlanTrajectory_body e s sa sn ga gn z ty d ep t w mx c))"
  using prepare_frame[where e = e and s = s and sa = sa and sn = sn and ga = ga and gn = gn
      and z = z and ty = ty and d = d and ep = ep and t = t]
  by (simp add: PlanTrajectory_body_def Let_def
      split: sum.splits prod.splits solve_result.splits)


lemma materialize_fields [simp]:
  "model (materialize doc s) = model s"
  "kinematics (materialize doc s) = kinematics s"
  "initialized (materialize doc s) = initialized s"
  "delta (materialize doc s) = delta s"
  "epsilon (materialize doc s) = epsilon s"
  "timeoutMs (materialize doc s) = timeoutMs s"
  "start (materialize doc s) =
     (if start_q doc \<noteq> [] then Some (map q_radians (start_q doc)) else start s)"
  "goal (materialize doc s) =
     (if goal_q doc \<noteq> [] then Some (map q_radians (goal_q doc)) else goal s)"
  by (simp_all add: materialize_def Let_def)

lemma build_planner_fields:
  "model (snd (build_planner doc s)) = model s
   \<and> kinematics (snd (build_planner doc s)) = kinematics s
   \<and> initialized (snd (build_planner doc s)) = initialized s
   \<and> delta (snd (build_planner doc s)) = delta s
   \<and> epsilon (snd (build_planner doc s)) = epsilon s
   \<and> timeoutMs (snd (build_planner doc s)) = timeoutMs s
   \<and> start (snd (build_planner doc s)) = start s
   \<and> goal (snd (build_planner doc s)) = goal s"
  by (simp add: build_planner_def Let_def split: option.split)

text \<open>The stages of the descriptor loader, once the document is read and names both files.\<close>

lemma LoadPlanXml_stages:
  assumes "read_plan e path = Returns doc"
    and "scene_hrefs doc \<noteq> []" and "kinematics_hrefs doc \<noteq> []"
  shows "LoadPlanXml_body e s path =
     (let s1 = s\<lparr>plannerType := plan_type doc, delta := plan_delta doc,
                 epsilon := plan_epsilon doc, timeoutMs := plan_timeoutMs doc\<rparr>;
          r2 = LoadKinematics_body e s1 (hd (kinematics_hrefs doc));
          r3 = LoadScene_body e (snd r2) (hd (scene_hrefs doc)) (size_t_to_int (model_index doc))
      in if fst r2 \<noteq> RL_SUCCESS then r2
         else if fst r3 \<noteq> RL_SUCCESS then r3
         else build_planner doc (materialize doc (snd r3)))"
  using assms
  by (simp add: LoadPlanXml_body_def Let_def split: prod.split)

lemma LoadPlanXml_success:
  assumes "LoadPlanXml_body e s path = (RL_SUCCESS, s')"
  shows "initialized s' \<and> view_ok s'"
proof (cases "read_plan e path")
  case (Throws x)
  with assms show ?thesis by (simp add: LoadPlanXml_body_def)
next
  case (Returns doc)
  show ?thesis
  proof (cases "scene_hrefs doc \<noteq> [] \<and> kinematics_hrefs doc \<noteq> []")
    case False
    with assms Returns show ?thesis
      by (auto simp: LoadPlanXml_body_def split: if_splits)
  next
    case True
    define s1 where "s1 = s\<lparr>plannerType := plan_type doc, delta := plan_delta doc,
                 epsilon := plan_epsilon doc, timeoutMs := plan_timeoutMs doc\<rparr>"
    define r2 where "r2 = LoadKinematics_body e s1 (hd (kinematics_hrefs doc))"
    define r3 where
      "r3 = LoadScene_body e (snd r2) (hd (scene_hrefs doc)) (size_t_to_int (model_index doc))"
    from True have st: "LoadPlanXml_body e s path =
         (if fst r2 \<noteq> RL_SUCCESS then r2
          else if fst r3 \<noteq> RL_SUCCESS then r3
          else build_planner doc (materialize doc (snd r3)))"
      using LoadPlanXml_stages[OF Returns, of s]
      by (simp add: Let_def s1_def r2_def r3_def)
    from assms st have ok2: "fst r2 = RL_SUCCESS"
      by (cases r2) (auto split: if_splits)
    from assms st ok2 have ok3: "fst r3 = RL_SUCCESS"
      by (cases r3) (auto split: if_splits)
    from assms st ok2 ok3 have s': "s' = snd (build_planner doc (materialize doc (snd r3)))"
      by simp
    have "LoadScene_body e (snd r2) (hd (scene_hrefs doc)) (size_t_to_int (model_index doc))
            = (RL_SUCCESS, snd r3)"
      using ok3 by (simp add: r3_def prod_eq_iff)
    from LoadScene_success[OF this] have "initialized (snd r3) \<and> view_ok (snd r3)" .
    then show ?thesis
      using build_planner_fields[of doc "materialize doc (snd r3)"]
      by (simp add: s' view_ok_def)
  qed
qed

section \<open>Facts about IsValidConfiguration\<close>

lemma probe_verifier_Some:
  "model s \<noteq> None \<Longrightarrow> \<exists>v. verifier (probe_verifier s) = Some v"
  by (cases "verifier s") (auto simp: probe_verifier_def)

lemma IsValid_body_range:
  "fst (IsValidConfiguration_body e s a n) = 0 \<or> fst (IsValidConfiguration_body e s a n) = 1"
  by (simp add: IsValidConfiguration_body_def Let_def split: outcome.split option.split)

lemma IsValid_body_one:
  "fst (IsValidConfiguration_body e s a n) = 1 \<longleftrightarrow>
     (\<exists>m dof v. initialized s \<and> model s = Some m \<and> kinematics s \<noteq> None
        \<and> (sm_kin m \<noteq> None \<or> sm_mdl m \<noteq> None)
        \<and> sm_model m \<noteq> None \<and> sm_scene m \<noteq> None
        \<and> getDofPosition e m = Returns dof \<and> n = int dof
        \<and> model_isValid e m (copy_array a dof) = Returns True
        \<and> verifier (probe_verifier s) = Some v
        \<and> verifier_isValid e v [copy_array a dof, copy_array a dof] \<noteq> Returns False)"
proof (cases "model s")
  case None
  then show ?thesis by (simp add: IsValidConfiguration_body_def)
next
  case (Some m)
  then obtain v where v: "verifier (probe_verifier s) = Some v"
    using probe_verifier_Some[of s] by auto
  show ?thesis
  proof (cases "getDofPosition e m")
    case (Throws x)
    with Some show ?thesis by (simp add: IsValidConfiguration_body_def)
  next
    case (Returns dof)
    show ?thesis
    proof (cases "model_isValid e m (copy_array a dof)")
      case (Throws x)
      with Some Returns show ?thesis by (simp add: IsValidConfiguration_body_def Let_def)
    next
      case valid: (Returns b)
      show ?thesis
      proof (cases "verifier_isValid e v [copy_array a dof, copy_array a dof]")
        case (Throws x)
        with Some Returns valid v show ?thesis
          by (auto simp add: IsValidConfiguration_body_def Let_def)
      next
        case free: (Returns c)
        with Some Returns valid v show ?thesis
          by (auto simp add: IsValidConfiguration_body_def Let_def)
      qed
    qed
  qed
qed

lemma throwing_engine_simps [simp]:
  "getDofPosition throwing_engine m = Returns 3"
  "model_isValid throwing_engine m q = Returns (list_all (\<lambda>x. \<bar>x\<bar> \<le> 4) q)"
  "verifier_isValid throwing_engine v ps = Throws Std_exception"
  by (simp_all add: throwing_engine_def demo_engine_def)


section \<open>Facts about the descriptor loader\<close>



lemma demo_plan_loaded:
  "fst (LoadPlanXml_body demo_engine CreatePlanner ''plan.xml'') = RL_SUCCESS"
  by (simp add: CreatePlanner_def Let_def LoadPlanXml_body_def read_plan_def demo_doc_def
      size_t_to_int_def
      LoadKinematics_body_def load_plain_kinematics_def LoadScene_body_def wire_model_def
      materialize_def build_planner_def createPlanner_def plan_type_def rl_codes)

section \<open>Facts about the rounding of a product\<close>

lemma pow2_pos [simp]: "0 < pow2 k"
  by (simp add: pow2_def)

lemma pow2_powr: "pow2 k = 2 powr (of_int k)"
proof (cases "k \<ge> 0")
  case True
  then show ?thesis
    by (simp add: pow2_def powr_realpow[symmetric])
next
  case False
  then have "2 powr (of_int k) = 1 / 2 powr (real (nat (- k)))"
    by (simp add: powr_minus_divide[symmetric])
  with False show ?thesis
    by (simp add: pow2_def powr_realpow[symmetric])
qed

lemma binade_bounds:
  assumes "x \<noteq> 0"
  shows "pow2 (binade x) \<le> \<bar>x\<bar> \<and> \<bar>x\<bar> < pow2 (binade x + 1)"
proof (cases "\<bar>x\<bar> \<ge> 1")
  case True
  define n where "n = nat \<lfloor>\<bar>x\<bar>\<rfloor>"
  define k where "k = floorlog 2 n"
  have n: "n > 0" "real n \<le> \<bar>x\<bar>" "\<bar>x\<bar> < real n + 1"
    using True by (simp_all add: n_def)
  from floorlog_bounds[of n 2] n(1)
  have b: "2 ^ (k - 1) \<le> n" "n < 2 ^ k" by (simp_all add: k_def)
  have k: "k > 0" using n(1) by (simp add: k_def floorlog_def)
  have bin: "binade x = int (k - 1)"
    using True k by (simp add: binade_def bitlen_def n_def k_def)
  have "real (2 ^ (k - 1)) \<le> real n"
    using b(1) by (simp only: of_nat_le_iff)
  then have lo: "(2::real) ^ (k - 1) \<le> real n" by simp
  have "n + 1 \<le> 2 ^ k" using b(2) by simp
  then have "real (n + 1) \<le> real (2 ^ k)" by (simp only: of_nat_le_iff)
  then have hi: "real n + 1 \<le> 2 ^ k" by simp
  have "int (k - 1) + 1 = int k" using k by simp
  then have p2: "pow2 (binade x + 1) = 2 ^ k" by (simp add: bin pow2_def)
  have p1: "pow2 (binade x) = 2 ^ (k - 1)" by (simp add: bin pow2_def)
  have "pow2 (binade x) \<le> \<bar>x\<bar>" unfolding p1 using lo n(2) by linarith
  moreover have "\<bar>x\<bar> < pow2 (binade x + 1)" unfolding p2 using hi n(3) by linarith
  ultimately show ?thesis by (rule conjI)
next
  case False
  define a where "a = \<bar>x\<bar>"
  have a: "0 < a" "a < 1" using assms False by (simp_all add: a_def)
  define y where "y = 1 / a"
  have y: "1 < y" using a by (simp add: y_def)
  define m where "m = nat (\<lceil>y\<rceil> - 1)"
  define k where "k = floorlog 2 m"
  have cy: "\<lceil>y\<rceil> \<ge> 2" using y by linarith
  then have m: "m > 0" "int m = \<lceil>y\<rceil> - 1" by (simp_all add: m_def)
  have my: "real m < y" "y \<le> real m + 1"
  proof -
    have "real_of_int (\<lceil>y\<rceil> - 1) < y" by linarith
    then show "real m < y" using m(2) by simp
    have "y \<le> real_of_int \<lceil>y\<rceil>" by linarith
    also have "\<dots> = real_of_int (int m + 1)" using m(2) by simp
    finally show "y \<le> real m + 1" by simp
  qed
  from floorlog_bounds[of m 2] m(1)
  have b: "2 ^ (k - 1) \<le> m" "m < 2 ^ k" by (simp_all add: k_def)
  have k: "k > 0" using m(1) by (simp add: k_def floorlog_def)
  have bin: "binade x = - int k"
    using False by (simp add: binade_def bitlen_def m_def k_def y_def a_def)
  have "real (2 ^ (k - 1)) \<le> real m"
    using b(1) by (simp only: of_nat_le_iff)
  then have lo: "(2::real) ^ (k - 1) \<le> real m" by simp
  have "m + 1 \<le> 2 ^ k" using b(2) by simp
  then have "real (m + 1) \<le> real (2 ^ k)" by (simp only: of_nat_le_iff)
  then have hi: "real m + 1 \<le> 2 ^ k" by simp
  have y_hi: "y \<le> 2 ^ k" using my(2) hi by linarith
  have y_lo: "2 ^ (k - 1) < y" using my(1) lo by linarith
  have p1: "pow2 (binade x) = 1 / 2 ^ k"
    using k by (simp add: bin pow2_def)
  have "nat (int k - 1) = k - 1" using k by simp
  then have p2: "pow2 (binade x + 1) = 1 / 2 ^ (k - 1)"
    using k by (cases "k = 1") (simp_all add: bin pow2_def)
  have "1 / 2 ^ k \<le> a"
    using y_hi a by (simp add: y_def field_simps)
  then have "pow2 (binade x) \<le> \<bar>x\<bar>" unfolding p1 a_def .
  moreover have "a < 1 / 2 ^ (k - 1)"
    using y_lo a by (simp add: y_def field_simps)
  then have "\<bar>x\<bar> < pow2 (binade x + 1)" unfolding p2 a_def .
  ultimately show ?thesis by (rule conjI)
qed

lemma round_double_eqI:
  assumes "x \<noteq> 0" and "binade x = e" and "- 1022 \<le> e"
    and "round_half_even (x / pow2 (e - 52)) = n"
  shows "round_double x = of_int n * pow2 (e - 52)"
  using assms by (simp add: round_double_def Let_def max_def)

lemma floorlog_2_eqI:
  assumes "2 ^ (w - 1) \<le> x" and "x < 2 ^ w"
  shows "floorlog 2 x = w"
proof (rule antisym)
  show "floorlog 2 x \<le> w" using assms(2) by (intro floorlog_leI) simp_all
  show "w \<le> floorlog 2 x" using assms(1) by (intro floorlog_geI) simp_all
qed









text \<open>
  The products of 1000 with the \<^verbatim>\<open>double\<close>s that the texts \<^verbatim>\<open>0.3\<close> and \<^verbatim>\<open>1.001\<close> parse to:
  the first rounds up to 300, the second stays below 1001.
\<close>

lemma floorlog_299: "floorlog 2 299 = 9"
  by (rule floorlog_2_eqI) simp_all

lemma floorlog_1000: "floorlog 2 1000 = 10"
  by (rule floorlog_2_eqI) simp_all

lemma round_double_three_tenths: "round_double (5404319552844595 / 2 ^ 54 * 1000) = 300"
proof -
  have x: "(5404319552844595 / 2 ^ 54 * 1000 :: real) \<noteq> 0" by simp
  have b: "binade (5404319552844595 / 2 ^ 54 * 1000) = 8"
    by (simp add: binade_def bitlen_def floorlog_299)
  have r: "round_half_even (5404319552844595 / 2 ^ 54 * 1000 / pow2 (8 - 52))
             = 5277655813324800"
    by (simp add: round_half_even_def Let_def pow2_def)
  from round_double_eqI[OF x b _ r] show ?thesis by (simp add: pow2_def)
qed

lemma round_double_1001_thousandths:
  "\<lfloor>round_double (2254051613498933 / 2 ^ 51 * 1000)\<rfloor> = 1000"
proof -
  have x: "(2254051613498933 / 2 ^ 51 * 1000 :: real) \<noteq> 0" by simp
  have b: "binade (2254051613498933 / 2 ^ 51 * 1000) = 9"
    by (simp add: binade_def bitlen_def floorlog_1000)
  have r: "round_half_even (2254051613498933 / 2 ^ 51 * 1000 / pow2 (9 - 52))
             = 8804889115230207"
    by (simp add: round_half_even_def Let_def pow2_def)
  have "round_double (2254051613498933 / 2 ^ 51 * 1000)
          = of_int 8804889115230207 * pow2 (9 - 52)"
    by (rule round_double_eqI[OF x b _ r]) simp
  also have "\<dots> = 8804889115230207 / 2 ^ 43" by (simp add: pow2_def)
  finally have v: "round_double (2254051613498933 / 2 ^ 51 * 1000)
                     = 8804889115230207 / 2 ^ 43" .
  show ?thesis unfolding v by simp
qed

text \<open>The rounded value is within half a unit in the last place of the exact one.\<close>

lemma round_half_even_near: "\<bar>of_int (round_half_even y) - y\<bar> \<le> 1 / 2"
  unfolding round_half_even_def Let_def by (auto; linarith)

lemma round_double_near:
  "\<bar>round_double x - x\<bar> \<le> pow2 (max (binade x) (- 1022) - 52) / 2"
proof (cases "x = 0")
  case True
  then show ?thesis by (simp add: round_double_def less_imp_le)
next
  case False
  define u where "u = pow2 (max (binade x) (- 1022) - 52)"
  have u: "0 < u" by (simp add: u_def)
  have "round_double x - x = (of_int (round_half_even (x / u)) - x / u) * u"
    using False u by (simp add: round_double_def Let_def u_def[symmetric] field_simps)
  then have "\<bar>round_double x - x\<bar> = \<bar>of_int (round_half_even (x / u)) - x / u\<bar> * u"
    using u by (simp add: abs_mult)
  also have "\<dots> \<le> 1 / 2 * u"
    using round_half_even_near[of "x / u"] u by (intro mult_right_mono) simp_all
  finally show ?thesis by (simp add: u_def)
qed

section \<open>What the loaders establish and the other calls keep\<close>

text \<open>
  Every \<^verbatim>\<open>LoadScene\<close> and every \<^verbatim>\<open>LoadPlanXml\<close> that returns \<^verbatim>\<open>RL_SUCCESS\<close> leaves the session
  initialized with a planning model that references exactly one view of the kinematics the
  session holds, and \<^verbatim>\<open>LoadScene\<close>, \<^verbatim>\<open>SetStartConfiguration\<close>, \<^verbatim>\<open>SetGoalConfiguration\<close>,
  \<^verbatim>\<open>PlanTrajectory\<close> and \<^verbatim>\<open>IsValidConfiguration\<close> keep that. \<^verbatim>\<open>LoadKinematics\<close> is not among
  them.
\<close>

lemma view_established_and_kept:
  "(LoadScene_body e s path idx = (RL_SUCCESS, s') \<longrightarrow> initialized s' \<and> view_ok s')
   \<and> (LoadPlanXml_body e s path = (RL_SUCCESS, s'') \<longrightarrow> initialized s'' \<and> view_ok s'')
   \<and> (view_inv s \<longrightarrow>
         view_inv (snd (LoadScene_body e s path idx))
       \<and> view_inv (snd (SetStartConfiguration_body e s a n))
       \<and> view_inv (snd (SetGoalConfiguration_body e s a n))
       \<and> view_inv (st (PlanTrajectory_body e s startArr startSize goalArr goalSize useZAxis
                           ty d ep t w maxWaypoints c))
       \<and> view_inv (snd (IsValidConfiguration_body e s a n)))"
proof (intro conjI impI)
  assume "LoadScene_body e s path idx = (RL_SUCCESS, s')"
  from LoadScene_success[OF this] show "initialized s'" and "view_ok s'" by simp_all
next
  assume "LoadPlanXml_body e s path = (RL_SUCCESS, s'')"
  from LoadPlanXml_success[OF this] show "initialized s''" and "view_ok s''" by simp_all
next
  assume inv: "view_inv s"
  show "view_inv (snd (LoadScene_body e s path idx))"
    using inv by (rule LoadScene_keeps_view)
  show "view_inv (snd (SetStartConfiguration_body e s a n))"
    using inv SetStart_frame[of e s a n] by (simp add: view_inv_def view_ok_def)
  show "view_inv (snd (SetGoalConfiguration_body e s a n))"
    using inv SetGoal_frame[of e s a n] by (simp add: view_inv_def view_ok_def)
  show "view_inv (st (PlanTrajectory_body e s startArr startSize goalArr goalSize useZAxis
                           ty d ep t w maxWaypoints c))"
    using inv PlanTrajectory_frame by (rule view_inv_frame[rotated])
  show "view_inv (snd (IsValidConfiguration_body e s a n))"
    using inv IsValid_frame by (rule view_inv_frame[rotated])
qed

lemma view_established_and_kept_example:
  "LoadScene_body demo_engine (snd (LoadKinematics_body demo_engine CreatePlanner ''kin.xml''))
      ''scene.xml'' 0 = (RL_SUCCESS, loaded_session)
   \<and> initialized loaded_session \<and> view_ok loaded_session
   \<and> LoadPlanXml_body demo_engine CreatePlanner ''plan.xml''
       = (RL_SUCCESS, snd (LoadPlanXml_body demo_engine CreatePlanner ''plan.xml''))
   \<and> initialized (snd (LoadPlanXml_body demo_engine CreatePlanner ''plan.xml''))
   \<and> view_ok (snd (LoadPlanXml_body demo_engine CreatePlanner ''plan.xml''))
   \<and> view_inv loaded_session
   \<and> view_inv (snd (LoadScene_body demo_engine loaded_session ''scene.xml'' 5))
   \<and> view_inv (snd (SetStartConfiguration_body demo_engine loaded_session
                       (array_of [0, 0, 0.3]) 3))
   \<and> view_inv (snd (SetGoalConfiguration_body demo_engine loaded_session
                       (array_of [0, 0, 0.3]) 3))
   \<and> view_inv (st (PlanTrajectory_body demo_engine loaded_session
                     (Some (array_of [0, 0, 0.3])) 3 (Some (array_of [1, 1, 0.9])) 3 0
                     (Some ''rrt'') 0 0 0 blank 8 0))
   \<and> view_inv (snd (IsValidConfiguration_body demo_engine loaded_session
                       (array_of [0, 0, 0.3]) 3))"
proof -
  have h1: "LoadScene_body demo_engine
              (snd (LoadKinematics_body demo_engine CreatePlanner ''kin.xml''))
              ''scene.xml'' 0 = (RL_SUCCESS, loaded_session)"
    unfolding loaded_session_def
    by (simp add: prod_eq_iff LoadScene_body_def LoadKinematics_body_def
        load_plain_kinematics_def wire_model_def CreatePlanner_def Let_def)
  have h2: "LoadPlanXml_body demo_engine CreatePlanner ''plan.xml''
       = (RL_SUCCESS, snd (LoadPlanXml_body demo_engine CreatePlanner ''plan.xml''))"
    using demo_plan_loaded by (simp add: prod_eq_iff)
  note inst = view_established_and_kept [of demo_engine
      "snd (LoadKinematics_body demo_engine CreatePlanner ''kin.xml'')" "''scene.xml''" 0
      loaded_session]
  have a: "initialized loaded_session \<and> view_ok loaded_session"
    using inst h1 by blast
  then have inv: "view_inv loaded_session" by (simp add: view_inv_def)
  have b: "initialized (snd (LoadPlanXml_body demo_engine CreatePlanner ''plan.xml''))
         \<and> view_ok (snd (LoadPlanXml_body demo_engine CreatePlanner ''plan.xml''))"
    using view_established_and_kept [of demo_engine CreatePlanner "''plan.xml''" _ _
        "snd (LoadPlanXml_body demo_engine CreatePlanner ''plan.xml'')"] h2
    by blast
  have c: "view_inv (snd (LoadScene_body demo_engine loaded_session ''scene.xml'' 5))
   \<and> view_inv (snd (SetStartConfiguration_body demo_engine loaded_session
                       (array_of [0, 0, 0.3]) 3))
   \<and> view_inv (snd (SetGoalConfiguration_body demo_engine loaded_session
                       (array_of [0, 0, 0.3]) 3))
   \<and> view_inv (st (PlanTrajectory_body demo_engine loaded_session
                     (Some (array_of [0, 0, 0.3])) 3 (Some (array_of [1, 1, 0.9])) 3 0
                     (Some ''rrt'') 0 0 0 blank 8 0))
   \<and> view_inv (snd (IsValidConfiguration_body demo_engine loaded_session
                       (array_of [0, 0, 0.3]) 3))"
    using view_established_and_kept [of demo_engine loaded_session "''scene.xml''" 5 _ _
        "array_of [0, 0, 0.3]" 3 "Some (array_of [0, 0, 0.3])" 3 "Some (array_of [1, 1, 0.9])" 3 0
        "Some ''rrt''" 0 0 0 blank 8 0] inv
    by blast
  from h1 h2 a b c inv show ?thesis by simp
qed

section \<open>The claims\<close>

text \<open>
  C1. With \<^verbatim>\<open>useZAxis = 0\<close> and three or more joints, the goal vector the planner is given
  should have its last component replaced by that of the start vector, whether the goal came
  from the call or from the session. On the session with stored start \<open>(0, 0, 0.3)\<close> and
  stored goal \<open>(1, 1, 0.9)\<close>, a call with no per-call goal and \<^verbatim>\<open>useZAxis = 0\<close> hands the
  planner the goal \<open>(1, 1, 0.9)\<close>: the constraint is applied in the branch of the per-call
  goal only, where it does hold (lemma \<open>per_call_goal_constrained\<close>).
\<close>

theorem stored_goal_used_unconstrained:
  "(case prepare_plan demo_engine ready_session None 0 None 0 0 (Some ''rrt'') 0 0 0 of
      Inl err \<Rightarrow> False
    | Inr pr \<Rightarrow> pr_dof pr = 3 \<and> pr_start pr = [0, 0, 0.3] \<and> pr_goal pr = [1, 1, 0.9])"
  by (simp add: ready_prepare)

text \<open>
  The same call, read off the planner's vectors: the last components differ.
\<close>

theorem stored_goal_used_unconstrained_witness:
  "map_sum fst pr_goal
     (prepare_plan demo_engine ready_session None 0 None 0 0 (Some ''rrt'') 0 0 0)
     = Inr [1, 1, 0.9]
   \<and> map_sum fst pr_start
     (prepare_plan demo_engine ready_session None 0 None 0 0 (Some ''rrt'') 0 0 0)
     = Inr [0, 0, 0.3]"
  using stored_goal_used_unconstrained
  by (cases "prepare_plan demo_engine ready_session None 0 None 0 0 (Some ''rrt'') 0 0 0")
    simp_all

text \<open>
  C2, as the claim has it: \<^verbatim>\<open>IsValidConfiguration\<close> returns 1 only when the verifier accepts the
  path \<open>[config, config]\<close>, and any exception gives 0. With a verifier that throws, the call on
  a valid configuration returns 1: the handlers around the verifier call return the result of
  the model's own check.
\<close>

theorem throwing_verifier_counts_as_valid:
  "fst (IsValidConfiguration throwing_engine (Some loaded_session) (Some (array_of [0, 0, 0])) 3) = 1
   \<and> verifier (probe_verifier loaded_session) = Some \<lparr>v_delta = 0.1, v_model = Some demo_model\<rparr>
   \<and> verifier_isValid throwing_engine \<lparr>v_delta = 0.1, v_model = Some demo_model\<rparr>
        [[0, 0, 0], [0, 0, 0]] = Throws Std_exception"
  by (simp add: IsValidConfiguration_def IsValidConfiguration_body_def probe_verifier_def
      loaded_session_eq CreatePlanner_def demo_model_def Let_def)

text \<open>
  C2, amended. \<^verbatim>\<open>IsValidConfiguration\<close> returns 1 exactly when handle and array are non-null,
  the session is initialized with a planning model, kinematics is present, the model has a
  kinematic or dynamic view, a robot model and a scene, \<open>n\<close> is the model's degrees of
  freedom, the model's \<^verbatim>\<open>isValid\<close> returns true on the configuration, and the verifier (the
  stored one, or one created for the call) does not reject the path \<open>[config, config]\<close>: it
  accepts it or throws. The result is always 0 or 1, never a negative code.
\<close>

theorem IsValidConfiguration_one_iff:
  "(fst (IsValidConfiguration e h config n) = 1 \<longleftrightarrow>
     (\<exists>s a m dof v. h = Some s \<and> config = Some a
        \<and> initialized s \<and> model s = Some m \<and> kinematics s \<noteq> None
        \<and> (sm_kin m \<noteq> None \<or> sm_mdl m \<noteq> None)
        \<and> sm_model m \<noteq> None \<and> sm_scene m \<noteq> None
        \<and> getDofPosition e m = Returns dof \<and> n = int dof
        \<and> model_isValid e m (copy_array a dof) = Returns True
        \<and> verifier (probe_verifier s) = Some v
        \<and> verifier_isValid e v [copy_array a dof, copy_array a dof] \<noteq> Returns False))
   \<and> (fst (IsValidConfiguration e h config n) = 0 \<or> fst (IsValidConfiguration e h config n) = 1)"
proof (cases h)
  case None
  then show ?thesis by (simp add: IsValidConfiguration_def)
next
  case (Some s)
  show ?thesis
  proof (cases config)
    case None
    with Some show ?thesis by (simp add: IsValidConfiguration_def)
  next
    case (Some a)
    have "fst (IsValidConfiguration e h config n) = fst (IsValidConfiguration_body e s a n)"
      using Some \<open>h = Some s\<close> by (simp add: IsValidConfiguration_def split: prod.split)
    then show ?thesis
      using IsValid_body_one[of e s a n] IsValid_body_range[of e s a n] Some \<open>h = Some s\<close>
      by simp
  qed
qed

text \<open>
  On the loaded session the zero configuration is valid and \<open>(9, 0, 0)\<close>, outside the joint
  limits, is not.
\<close>

theorem IsValidConfiguration_one_iff_witness:
  "initialized loaded_session \<and> model loaded_session = Some demo_model
   \<and> kinematics loaded_session \<noteq> None
   \<and> sm_kin demo_model \<noteq> None \<and> sm_model demo_model \<noteq> None \<and> sm_scene demo_model \<noteq> None
   \<and> getDofPosition demo_engine demo_model = Returns 3
   \<and> model_isValid demo_engine demo_model (copy_array (array_of [0, 0, 0]) 3) = Returns True
   \<and> verifier (probe_verifier loaded_session) = Some \<lparr>v_delta = 0.1, v_model = Some demo_model\<rparr>
   \<and> verifier_isValid demo_engine \<lparr>v_delta = 0.1, v_model = Some demo_model\<rparr>
        [copy_array (array_of [0, 0, 0]) 3, copy_array (array_of [0, 0, 0]) 3] = Returns True
   \<and> fst (IsValidConfiguration demo_engine (Some loaded_session) (Some (array_of [0, 0, 0])) 3) = 1
   \<and> fst (IsValidConfiguration demo_engine (Some loaded_session) (Some (array_of [9, 0, 0])) 3) = 0"
proof -
  have facts: "initialized loaded_session" "model loaded_session = Some demo_model"
    "kinematics loaded_session \<noteq> None"
    "sm_kin demo_model \<noteq> None" "sm_model demo_model \<noteq> None" "sm_scene demo_model \<noteq> None"
    "verifier (probe_verifier loaded_session) = Some \<lparr>v_delta = 0.1, v_model = Some demo_model\<rparr>"
    by (simp_all add: loaded_session_eq CreatePlanner_def demo_model_def probe_verifier_def)
  have yes: "fst (IsValidConfiguration demo_engine (Some loaded_session)
                    (Some (array_of [0, 0, 0])) 3) = 1"
    using facts
    by (subst conjunct1 [OF IsValidConfiguration_one_iff]) simp
  have "model_isValid demo_engine demo_model (copy_array (array_of [9, 0, 0]) 3) \<noteq> Returns True"
    by simp
  then have "fst (IsValidConfiguration demo_engine (Some loaded_session)
                    (Some (array_of [9, 0, 0])) 3) \<noteq> 1"
    using facts
    by (subst conjunct1 [OF IsValidConfiguration_one_iff]) simp
  then have no: "fst (IsValidConfiguration demo_engine (Some loaded_session)
                    (Some (array_of [9, 0, 0])) 3) = 0"
    using conjunct2 [OF IsValidConfiguration_one_iff, of demo_engine "Some loaded_session"
        "Some (array_of [9, 0, 0])" 3]
    by simp
  from facts yes no show ?thesis by simp
qed

text \<open>
  C3. A call that returns \<^verbatim>\<open>RL_ERROR_PLANNING_FAILED\<close> should leave \<^verbatim>\<open>*waypointCount = 0\<close>.
  When \<^verbatim>\<open>verify()\<close> returns false the code returns that code and leaves the count as the
  caller had it, here 7; only the \<^verbatim>\<open>solve()\<close> branch writes the zero. What every failing
  call leaves behind is lemma \<open>outputs_on_failure\<close>: the buffer is untouched, and the count is
  untouched or zeroed with \<^verbatim>\<open>RL_ERROR_PLANNING_FAILED\<close>.
\<close>

theorem verify_failure_keeps_count:
  "rc (PlanTrajectory_body rejecting_engine ready_session None 0 None 0 1 (Some ''rrt'')
         0 0 0 blank 8 7) = RL_ERROR_PLANNING_FAILED
   \<and> cnt_out (PlanTrajectory_body rejecting_engine ready_session None 0 None 0 1 (Some ''rrt'')
         0 0 0 blank 8 7) = 7"
  by (simp add: PlanTrajectory_body_def prepare_plan_def resolve_start_def resolve_goal_def
      new_planner_def create_components_def choose_type_def createPlanner_def deref_def
      run_planner_def ready_session_eq loaded_session_eq CreatePlanner_def Let_def)

text \<open>
  The count after that call is not zero.
\<close>

theorem verify_failure_keeps_count_witness:
  "cnt_out (PlanTrajectory_body rejecting_engine ready_session None 0 None 0 1 (Some ''rrt'')
         0 0 0 blank 8 7) \<noteq> 0"
  using verify_failure_keeps_count by simp

text \<open>
  C4. While the session is initialized, a stored start or goal should have the size of the
  model's degrees of freedom and be accepted by the model. \<^verbatim>\<open>SetStartConfiguration\<close> copies
  the values before it asks the model, so a call rejected with
  \<^verbatim>\<open>RL_ERROR_INVALID_PARAMETER\<close> leaves the rejected values stored; \<^verbatim>\<open>LoadPlanXml\<close> stores
  the descriptor's \<^verbatim>\<open>q\<close> elements unchecked, here one value for a robot with three joints.
\<close>

theorem rejected_start_is_stored:
  "SetStartConfiguration_body demo_engine ready_session (array_of [9, 0, 0]) 3 =
     (RL_ERROR_INVALID_PARAMETER, ready_session\<lparr>start := Some [9, 0, 0]\<rparr>)
   \<and> initialized (ready_session\<lparr>start := Some [9, 0, 0]\<rparr>)
   \<and> model_isValid demo_engine demo_model [9, 0, 0] = Returns False
   \<and> fst (LoadPlanXml_body demo_engine CreatePlanner ''short.xml'') = RL_SUCCESS
   \<and> initialized (snd (LoadPlanXml_body demo_engine CreatePlanner ''short.xml''))
   \<and> start (snd (LoadPlanXml_body demo_engine CreatePlanner ''short.xml'')) = Some [1]
   \<and> GetDof demo_engine (Some (snd (LoadPlanXml_body demo_engine CreatePlanner ''short.xml''))) = 3"
  by (simp add: SetStartConfiguration_body_def ready_session_eq loaded_session_eq
      CreatePlanner_def Let_def LoadPlanXml_body_def read_plan_def short_doc_def demo_doc_def
      size_t_to_int_def
      LoadKinematics_body_def load_plain_kinematics_def LoadScene_body_def wire_model_def
      materialize_def build_planner_def createPlanner_def plan_type_def q_radians_def
      GetDof_def rl_codes)

text \<open>
  The stored start after the rejected call, and the size of the start the descriptor left.
\<close>

theorem rejected_start_is_stored_witness:
  "start (snd (SetStartConfiguration_body demo_engine ready_session (array_of [9, 0, 0]) 3))
     = Some [9, 0, 0]
   \<and> fst (SetStartConfiguration_body demo_engine ready_session (array_of [9, 0, 0]) 3)
     = RL_ERROR_INVALID_PARAMETER
   \<and> length (the (start (snd (LoadPlanXml_body demo_engine CreatePlanner ''short.xml'')))) = 1"
  using rejected_start_is_stored by simp

text \<open>
  C5. While the session is initialized, the planning model should reference exactly one view
  of the session's current kinematics, also after a \<^verbatim>\<open>LoadKinematics\<close> that follows
  \<^verbatim>\<open>LoadScene\<close>. On the loaded session, \<^verbatim>\<open>LoadKinematics\<close> of another descriptor returns
  \<^verbatim>\<open>RL_SUCCESS\<close>, replaces the session's kinematics and leaves the planning model on the
  kinematics loaded first, which the session no longer holds: the wiring that \<^verbatim>\<open>LoadScene\<close>
  does is not repeated.
\<close>

theorem reload_leaves_model_on_old_kinematics:
  "initialized loaded_session
   \<and> fst (LoadKinematics_body demo_engine loaded_session ''other.xml'') = RL_SUCCESS
   \<and> initialized (snd (LoadKinematics_body demo_engine loaded_session ''other.xml''))
   \<and> kinematics (snd (LoadKinematics_body demo_engine loaded_session ''other.xml''))
       = Some \<lparr>kin_source = ''other.xml'', kin_dynamic = False\<rparr>
   \<and> map_option sm_kin (model (snd (LoadKinematics_body demo_engine loaded_session ''other.xml'')))
       = Some (Some \<lparr>kin_source = ''kin.xml'', kin_dynamic = False\<rparr>)
   \<and> map_option sm_mdl (model (snd (LoadKinematics_body demo_engine loaded_session ''other.xml'')))
       = Some None
   \<and> \<not> view_ok (snd (LoadKinematics_body demo_engine loaded_session ''other.xml''))"
  by (simp add: LoadKinematics_body_def load_plain_kinematics_def loaded_session_eq
      CreatePlanner_def demo_model_def view_ok_def)

text \<open>
  After that call the planning model's kinematic view is not the session's kinematics.
\<close>

theorem reload_leaves_model_on_old_kinematics_witness:
  "map_option sm_kin (model (snd (LoadKinematics_body demo_engine loaded_session ''other.xml'')))
     \<noteq> Some (kinematics (snd (LoadKinematics_body demo_engine loaded_session ''other.xml'')))"
  using reload_leaves_model_on_old_kinematics by auto

text \<open>
  C6, as the claim has it: an unknown planner kind gives \<^verbatim>\<open>RL_ERROR_INVALID_PARAMETER\<close> whether
  or not the session holds a planner. On the session that holds the \<^verbatim>\<open>rrt\<close> planner of an
  earlier call, the kind \<^verbatim>\<open>"sbl"\<close> is not looked at and the call succeeds.
\<close>

theorem persistent_planner_accepts_unknown_kind:
  "initialized planned_session
   \<and> rc (PlanTrajectory_body demo_engine planned_session None 0 None 0 1 (Some ''sbl'')
          0 0 0 blank 8 0) = RL_SUCCESS"
proof -
  have "initialized planned_session"
    by (simp add: planned_session_eq ready_session_eq loaded_session_eq)
  moreover have "rc (PlanTrajectory_body demo_engine planned_session None 0 None 0 1
                       (Some ''sbl'') 0 0 0 blank 8 0) = RL_SUCCESS"
    by (simp add: PlanTrajectory_body_def planned_prepare demo_run Let_def)
  ultimately show ?thesis by simp
qed

text \<open>
  C6, amended. On an initialized session whose model reports its degrees of freedom, a call
  (non-null handle and output pointers) with a non-empty kind that \<^verbatim>\<open>createPlanner\<close> does not
  know returns \<^verbatim>\<open>RL_ERROR_INVALID_PARAMETER\<close> when the session holds no planner; when it holds
  one, the kind argument is ignored: the call does what it does with a null kind.
\<close>

theorem unknown_kind_without_planner:
  assumes "initialized s" and "model s = Some m" and "getDofPosition e m = Returns dof"
    and "ty \<noteq> []" and "\<not> known_planner_type ty"
  shows "(planner s = None \<longrightarrow>
            rc (PlanTrajectory_body e s startArr startSize goalArr goalSize useZAxis (Some ty)
                  d ep t w maxWaypoints c) = RL_ERROR_INVALID_PARAMETER)
       \<and> (planner s \<noteq> None \<longrightarrow>
            PlanTrajectory_body e s startArr startSize goalArr goalSize useZAxis (Some ty)
              d ep t w maxWaypoints c =
            PlanTrajectory_body e s startArr startSize goalArr goalSize useZAxis None
              d ep t w maxWaypoints c)"
proof (intro conjI impI)
  assume none: "planner s = None"
  have "choose_type (create_components s d) (Some ty) = ty"
    using assms(4) by (simp add: choose_type_def)
  then have "new_planner s (Some ty) d ep t = Inl (create_components s d)"
    using assms(5) by (simp add: new_planner_def Let_def createPlanner_unknown)
  then have "\<exists>s'. prepare_plan e s startArr startSize goalArr goalSize useZAxis (Some ty) d ep t
               = Inl (RL_ERROR_INVALID_PARAMETER, s')"
    using assms(1-3) none
    by (simp add: prepare_plan_def resolve_start_def resolve_goal_def Let_def)
  then show "rc (PlanTrajectory_body e s startArr startSize goalArr goalSize useZAxis (Some ty)
                  d ep t w maxWaypoints c) = RL_ERROR_INVALID_PARAMETER"
    by (auto simp: PlanTrajectory_body_def)
next
  assume "planner s \<noteq> None"
  then obtain p where "planner s = Some p" by auto
  then have "prepare_plan e s startArr startSize goalArr goalSize useZAxis (Some ty) d ep t =
             prepare_plan e s startArr startSize goalArr goalSize useZAxis None d ep t"
    by (simp add: prepare_plan_def cong: outcome.case_cong sum.case_cong if_cong)
  then show "PlanTrajectory_body e s startArr startSize goalArr goalSize useZAxis (Some ty)
              d ep t w maxWaypoints c =
            PlanTrajectory_body e s startArr startSize goalArr goalSize useZAxis None
              d ep t w maxWaypoints c"
    by (simp add: PlanTrajectory_body_def)
qed

text \<open>
  The kind \<^verbatim>\<open>"sbl"\<close> on the loaded session, which has no planner, and on the session that
  holds one.
\<close>

theorem unknown_kind_without_planner_witness:
  "initialized loaded_session \<and> model loaded_session = Some demo_model
   \<and> getDofPosition demo_engine demo_model = Returns 3
   \<and> ''sbl'' \<noteq> [] \<and> \<not> known_planner_type ''sbl''
   \<and> planner loaded_session = None
   \<and> rc (PlanTrajectory_body demo_engine loaded_session (Some (array_of [0, 0, 0.3])) 3
            (Some (array_of [1, 1, 0.9])) 3 1 (Some ''sbl'') 0 0 0 blank 8 0)
       = RL_ERROR_INVALID_PARAMETER
   \<and> initialized planned_session \<and> model planned_session = Some demo_model
   \<and> planner planned_session \<noteq> None
   \<and> PlanTrajectory_body demo_engine planned_session None 0 None 0 1 (Some ''sbl'') 0 0 0
         blank 8 0
       = PlanTrajectory_body demo_engine planned_session None 0 None 0 1 None 0 0 0 blank 8 0"
proof -
  have l: "initialized loaded_session" "model loaded_session = Some demo_model"
    "planner loaded_session = None"
    by (simp_all add: loaded_session_eq CreatePlanner_def)
  have p: "initialized planned_session" "model planned_session = Some demo_model"
    "planner planned_session \<noteq> None"
    by (simp_all add: planned_session_eq ready_session_eq loaded_session_eq CreatePlanner_def)
  have d: "getDofPosition demo_engine demo_model = Returns 3" by simp
  have t: "''sbl'' \<noteq> []" "\<not> known_planner_type ''sbl''"
    by (simp_all add: known_planner_type_def)
  from unknown_kind_without_planner [OF l(1) l(2) d t, of "Some (array_of [0, 0, 0.3])" 3
        "Some (array_of [1, 1, 0.9])" 3 1 0 0 0 blank 8 0]
    unknown_kind_without_planner [OF p(1) p(2) d t, of None 0 None 0 1 0 0 0 blank 8 0]
    l p d t
  show ?thesis by simp
qed

text \<open>
  C7, as the claim has it: a positive \<^verbatim>\<open>delta\<close> or \<^verbatim>\<open>epsilon\<close> argument is what planner and
  verifier use, also when the session's planner is reused. On the session that holds the
  planner built with \<open>delta = 0.1\<close> and \<open>epsilon = 0.001\<close>, a call with \<open>delta = 0.5\<close> and
  \<open>epsilon = 0.25\<close> plans with \<open>0.1\<close> and \<open>0.001\<close>, and the verifier keeps \<open>0.1\<close>.
\<close>

theorem persistent_planner_keeps_delta:
  "(case prepare_plan demo_engine planned_session None 0 None 0 1 None 0.5 0.25 0 of
      Inl err \<Rightarrow> False
    | Inr pr \<Rightarrow> used_delta (p_kind (pr_planner pr)) = Some 0.1
              \<and> used_epsilon (p_kind (pr_planner pr)) = Some 0.001
              \<and> map_option v_delta (verifier (pr_session pr)) = Some 0.1)"
proof -
  have "map_option v_delta (verifier planned_session) = Some 0.1"
    by (simp add: planned_session_eq)
  then show ?thesis
    by (simp add: planned_prepare demo_planner_def)
qed

text \<open>
  C7, amended. For a call that gets as far as the planner: a positive \<^verbatim>\<open>timeoutMs\<close> is the
  planner's duration in every case. When the planner is built in the call, a planner of the RRT
  family takes the positive \<^verbatim>\<open>delta\<close> and \<^verbatim>\<open>epsilon\<close> arguments, else the stored values; its
  duration is the positive \<^verbatim>\<open>timeoutMs\<close>, else the stored one; the verifier takes the same
  \<^verbatim>\<open>delta\<close> if it is built in this call too, and is left as it is otherwise. When the
  session's planner is reused, \<^verbatim>\<open>delta\<close> and \<^verbatim>\<open>epsilon\<close> are ignored: planner and verifier keep
  theirs, and a \<^verbatim>\<open>timeoutMs\<close> that is not positive leaves the planner's duration as it was.
\<close>

theorem overrides_and_persistent_planner:
  assumes "prepare_plan e s startArr startSize goalArr goalSize useZAxis ty d ep t = Inr pr"
  shows "(t > 0 \<longrightarrow> p_duration (pr_planner pr) = Some t)
       \<and> (planner s = None \<longrightarrow>
            (\<forall>x. used_delta (p_kind (pr_planner pr)) = Some x \<longrightarrow>
                   x = (if d > 0 then d else delta s))
          \<and> (\<forall>x. used_epsilon (p_kind (pr_planner pr)) = Some x \<longrightarrow>
                   x = (if ep > 0 then ep else epsilon s))
          \<and> p_duration (pr_planner pr) = Some (if t > 0 then t else timeoutMs s)
          \<and> (verifier s = None \<longrightarrow>
                map_option v_delta (verifier (pr_session pr)) =
                  Some (if d > 0 then d else delta s))
          \<and> (verifier s \<noteq> None \<longrightarrow> verifier (pr_session pr) = verifier s))
       \<and> (\<forall>p. planner s = Some p \<longrightarrow>
            p_kind (pr_planner pr) = p_kind p
          \<and> verifier (pr_session pr) = verifier s
          \<and> (t \<le> 0 \<longrightarrow> p_duration (pr_planner pr) = p_duration p))"
proof -
  from assms obtain dof startVec goalVec s4 p0 where
    acq: "(case planner s of Some p \<Rightarrow> Inr (s, p) | None \<Rightarrow> new_planner s ty d ep t)
            = Inr (s4, p0)"
    and pl: "pr_planner pr =
               (if t > 0 then p0\<lparr>p_start := Some startVec, p_goal := Some goalVec,
                                  p_duration := Some t\<rparr>
                else p0\<lparr>p_start := Some startVec, p_goal := Some goalVec\<rparr>)"
    and se: "pr_session pr = s4\<lparr>planner := Some (pr_planner pr)\<rparr>"
    unfolding prepare_plan_def
    by (auto simp: Let_def split: if_splits outcome.splits sum.splits prod.splits)
  show ?thesis
  proof (cases "planner s")
    case None
    with acq have np: "new_planner s ty d ep t = Inr (s4, p0)" by simp
    from new_planner_Inr[OF np] pl se None show ?thesis
      by (auto simp: create_components_verifier split: option.splits)
  next
    case (Some p)
    with acq have "s4 = s" "p0 = p" by simp_all
    with pl se Some show ?thesis by auto
  qed
qed

text \<open>
  A first plan with \<open>delta = 0.5\<close> and \<open>timeoutMs = 250\<close>, and a plan on the session that
  holds a planner.
\<close>

theorem overrides_and_persistent_planner_witness:
  "prepare_plan demo_engine ready_session None 0 None 0 1 (Some ''rrt'') 0.5 0 250
     = Inr override_prepared
   \<and> planner ready_session = None \<and> verifier ready_session = None
   \<and> p_duration (pr_planner override_prepared) = Some 250
   \<and> used_delta (p_kind (pr_planner override_prepared)) = Some 0.5
   \<and> used_epsilon (p_kind (pr_planner override_prepared)) = Some (epsilon ready_session)
   \<and> map_option v_delta (verifier (pr_session override_prepared)) = Some 0.5
   \<and> prepare_plan demo_engine planned_session None 0 None 0 1 None 0.5 0.25 0
     = Inr reused_prepared
   \<and> planner planned_session = Some demo_planner
   \<and> p_kind (pr_planner reused_prepared) = p_kind demo_planner
   \<and> verifier (pr_session reused_prepared) = verifier planned_session
   \<and> p_duration (pr_planner reused_prepared) = p_duration demo_planner"
proof -
  have h1: "prepare_plan demo_engine ready_session None 0 None 0 1 (Some ''rrt'') 0.5 0 250
     = Inr override_prepared"
    by (simp add: prepare_plan_def resolve_start_def resolve_goal_def new_planner_def
      create_components_def choose_type_def createPlanner_def deref_def demo_planner_def
      override_prepared_def override_planner_def
      ready_session_eq loaded_session_eq CreatePlanner_def Let_def)
  have h2: "prepare_plan demo_engine planned_session None 0 None 0 1 None 0.5 0.25 0
     = Inr reused_prepared"
    by (simp add: planned_prepare reused_prepared_def)
  have s1: "planner ready_session = None" "verifier ready_session = None"
    "epsilon ready_session = 0.001" "delta ready_session = 0.1"
    by (simp_all add: ready_session_eq loaded_session_eq CreatePlanner_def)
  have s2: "planner planned_session = Some demo_planner"
    by (simp add: planned_session_eq)
  have k: "used_delta (p_kind (pr_planner override_prepared)) \<noteq> None"
    "used_epsilon (p_kind (pr_planner override_prepared)) \<noteq> None"
    by (simp_all add: override_prepared_def override_planner_def)
  from overrides_and_persistent_planner [OF h1] overrides_and_persistent_planner [OF h2]
    h1 h2 s1 s2 k
  show ?thesis by auto
qed

text \<open>
  C8. After a call that returns \<^verbatim>\<open>RL_SUCCESS\<close> with \<^verbatim>\<open>maxWaypoints > 0\<close>: the count is the
  smaller of the length of the optimized path and \<^verbatim>\<open>maxWaypoints\<close>, row \<open>i\<close> of the buffer
  holds waypoint \<open>i\<close> (\<open>waypoints[i * dof + j] = path[i][j]\<close>) for every row below the count,
  and the buffer from offset \<open>count * dof\<close> on is as the caller left it.
\<close>

theorem PlanTrajectory_success_layout:
  assumes "PlanTrajectory e (Some s) startArr startSize goalArr goalSize useZAxis ty d ep t
             (Some w) maxWaypoints (Some c) = Inr r"
    and "rc r = RL_SUCCESS"
    and "maxWaypoints > 0"
  shows "\<exists>pr path.
           prepare_plan e s startArr startSize goalArr goalSize useZAxis ty d ep t = Inr pr
         \<and> run_planner e pr = Solved path
         \<and> cnt_out r = min (int (length path)) maxWaypoints
         \<and> (\<forall>i j. int i < cnt_out r \<longrightarrow> j < pr_dof pr \<longrightarrow>
                wp_out r (i * pr_dof pr + j) = path ! i ! j)
         \<and> (\<forall>k. nat (cnt_out r) * pr_dof pr \<le> k \<longrightarrow> wp_out r k = w k)"
proof -
  have r: "r = PlanTrajectory_body e s startArr startSize goalArr goalSize useZAxis ty d ep t
                 w maxWaypoints c"
    using assms(1) by (simp add: PlanTrajectory_def)
  with assms(2) obtain pr path
    where pr: "prepare_plan e s startArr startSize goalArr goalSize useZAxis ty d ep t = Inr pr"
      and path: "run_planner e pr = Solved path"
    by (auto elim: success_solved)
  define n where "n = min (int (length path)) maxWaypoints"
  have cnt: "cnt_out r = n"
    using r pr path by (simp add: PlanTrajectory_body_def n_def min_def Let_def)
  have wp: "wp_out r = copy_waypoints path 0 n (pr_dof pr) w"
    using r pr path by (simp add: PlanTrajectory_body_def n_def min_def Let_def)
  have rows: "wp_out r (i * pr_dof pr + j) = path ! i ! j"
    if "int i < n" "j < pr_dof pr" for i j
  proof -
    have "(i * pr_dof pr + j) div pr_dof pr = i" "(i * pr_dof pr + j) mod pr_dof pr = j"
      using that(2) by simp_all
    moreover have "i < length path" using that(1) by (simp add: n_def)
    ultimately show ?thesis using that by (simp add: wp copy_waypoints_apply)
  qed
  have rest: "wp_out r k = w k" if "nat n * pr_dof pr \<le> k" for k
  proof (cases "0 < pr_dof pr")
    case False
    then show ?thesis by (simp add: wp copy_waypoints_apply)
  next
    case True
    have "nat n \<le> k div pr_dof pr"
      using that True by (simp add: less_eq_div_iff_mult_less_eq)
    then have "\<not> int (k div pr_dof pr) < n" by linarith
    then show ?thesis by (simp add: wp copy_waypoints_apply)
  qed
  from pr path cnt rows rest show ?thesis
    by (intro exI conjI) (auto simp: cnt n_def)
qed

text \<open>
  A path of two waypoints into a buffer of one row: the count is 1, the row is the start, and
  the next offset is untouched.
\<close>

theorem PlanTrajectory_success_layout_witness:
  "PlanTrajectory demo_engine (Some ready_session) None 0 None 0 1 (Some ''rrt'') 0 0 0
       (Some blank) 1 (Some 5) =
     Inr (PlanTrajectory_body demo_engine ready_session None 0 None 0 1 (Some ''rrt'') 0 0 0
            blank 1 5)
   \<and> rc (PlanTrajectory_body demo_engine ready_session None 0 None 0 1 (Some ''rrt'') 0 0 0
            blank 1 5) = RL_SUCCESS
   \<and> (1 :: int) > 0
   \<and> cnt_out (PlanTrajectory_body demo_engine ready_session None 0 None 0 1 (Some ''rrt'') 0 0 0
            blank 1 5) = 1
   \<and> wp_out (PlanTrajectory_body demo_engine ready_session None 0 None 0 1 (Some ''rrt'') 0 0 0
            blank 1 5) 2 = 0.3
   \<and> wp_out (PlanTrajectory_body demo_engine ready_session None 0 None 0 1 (Some ''rrt'') 0 0 0
            blank 1 5) 3 = blank 3"
proof -
  define r where
    "r = PlanTrajectory_body demo_engine ready_session None 0 None 0 1 (Some ''rrt'') 0 0 0
           blank 1 5"
  have h1: "PlanTrajectory demo_engine (Some ready_session) None 0 None 0 1 (Some ''rrt'') 0 0 0
       (Some blank) 1 (Some 5) = Inr r"
    by (simp add: r_def PlanTrajectory_nonnull)
  have h2: "rc r = RL_SUCCESS"
    by (simp add: r_def PlanTrajectory_body_def ready_prepare demo_run Let_def)
  have h3: "(1 :: int) > 0" by simp
  from PlanTrajectory_success_layout [OF h1 h2 h3]
  obtain pr path where
    pr: "prepare_plan demo_engine ready_session None 0 None 0 1 (Some ''rrt'') 0 0 0 = Inr pr"
    and path: "run_planner demo_engine pr = Solved path"
    and cnt: "cnt_out r = min (int (length path)) 1"
    and rows: "\<forall>i j. int i < cnt_out r \<longrightarrow> j < pr_dof pr \<longrightarrow>
                wp_out r (i * pr_dof pr + j) = path ! i ! j"
    and rest: "\<forall>k. nat (cnt_out r) * pr_dof pr \<le> k \<longrightarrow> wp_out r k = blank k"
    by blast
  from pr have dof: "pr_dof pr = 3" and p0: "pr_start pr = [0, 0, 0.3]"
    and p1: "pr_goal pr = [1, 1, 0.9]"
    by (auto simp: ready_prepare)
  from path have path_eq: "path = [[0, 0, 0.3], [1, 1, 0.9]]"
    by (simp add: demo_run p0 p1)
  have c1: "cnt_out r = 1" using cnt by (simp add: path_eq)
  have "int 0 < cnt_out r \<longrightarrow> 2 < pr_dof pr \<longrightarrow>
          wp_out r (0 * pr_dof pr + 2) = path ! 0 ! 2"
    using rows by blast
  then have c2: "wp_out r 2 = 0.3" using c1 dof by (simp add: path_eq numeral_2_eq_2)
  have c3: "wp_out r 3 = blank 3" using rest c1 dof by simp
  from h1 h2 h3 c1 c2 c3 show ?thesis unfolding r_def by simp
qed





text \<open>
  C10. When \<^verbatim>\<open>maxWaypoints\<close> is zero or negative and the planner solves the query (the path
  is retrieved and optimized), the call returns \<^verbatim>\<open>RL_SUCCESS\<close>, sets \<^verbatim>\<open>*waypointCount\<close> to
  \<^verbatim>\<open>maxWaypoints\<close> itself and writes nothing into the buffer.
\<close>

theorem PlanTrajectory_nonpositive_capacity:
  assumes "prepare_plan e s startArr startSize goalArr goalSize useZAxis ty d ep t = Inr pr"
    and "run_planner e pr = Solved path"
    and "maxWaypoints \<le> 0"
  shows "rc (PlanTrajectory_body e s startArr startSize goalArr goalSize useZAxis ty d ep t
               w maxWaypoints c) = RL_SUCCESS
       \<and> cnt_out (PlanTrajectory_body e s startArr startSize goalArr goalSize useZAxis ty d ep t
               w maxWaypoints c) = maxWaypoints
       \<and> wp_out (PlanTrajectory_body e s startArr startSize goalArr goalSize useZAxis ty d ep t
               w maxWaypoints c) = w"
proof -
  define count where
    "count = (if int (length path) > maxWaypoints then maxWaypoints else int (length path))"
  have count: "count = maxWaypoints"
    using assms(3) by (auto simp: count_def)
  have "copy_waypoints path 0 count (pr_dof pr) w = w"
    using assms(3) count by (cases path) simp_all
  with assms(1,2) count show ?thesis
    by (simp add: PlanTrajectory_body_def Let_def count_def)
qed

text \<open>
  A buffer of \<open>-2\<close> rows.
\<close>

theorem PlanTrajectory_nonpositive_capacity_witness:
  "prepare_plan demo_engine ready_session None 0 None 0 1 (Some ''rrt'') 0 0 0 =
     Inr \<lparr>pr_session = planned_session, pr_planner = demo_planner, pr_start = [0, 0, 0.3],
          pr_goal = [1, 1, 0.9], pr_dof = 3\<rparr>
   \<and> run_planner demo_engine
       \<lparr>pr_session = planned_session, pr_planner = demo_planner, pr_start = [0, 0, 0.3],
        pr_goal = [1, 1, 0.9], pr_dof = 3\<rparr> = Solved [[0, 0, 0.3], [1, 1, 0.9]]
   \<and> (- 2 :: int) \<le> 0
   \<and> rc (PlanTrajectory_body demo_engine ready_session None 0 None 0 1 (Some ''rrt'') 0 0 0
           blank (- 2) 5) = RL_SUCCESS
   \<and> cnt_out (PlanTrajectory_body demo_engine ready_session None 0 None 0 1 (Some ''rrt'') 0 0 0
           blank (- 2) 5) = - 2
   \<and> wp_out (PlanTrajectory_body demo_engine ready_session None 0 None 0 1 (Some ''rrt'') 0 0 0
           blank (- 2) 5) = blank"
proof -
  have h1: "prepare_plan demo_engine ready_session None 0 None 0 1 (Some ''rrt'') 0 0 0 =
     Inr \<lparr>pr_session = planned_session, pr_planner = demo_planner, pr_start = [0, 0, 0.3],
          pr_goal = [1, 1, 0.9], pr_dof = 3\<rparr>"
    by (simp add: ready_prepare planned_session_eq)
  have h2: "run_planner demo_engine
       \<lparr>pr_session = planned_session, pr_planner = demo_planner, pr_start = [0, 0, 0.3],
        pr_goal = [1, 1, 0.9], pr_dof = 3\<rparr> = Solved [[0, 0, 0.3], [1, 1, 0.9]]"
    by (simp add: demo_run)
  have h3: "(- 2 :: int) \<le> 0" by simp
  from PlanTrajectory_nonpositive_capacity [OF h1 h2 h3, of blank 5] h1 h2 h3
  show ?thesis by simp
qed

end
